theory Spec2Isabelle
  imports Complex_Main "HOL-Library.Sublist" "HOL-Library.Option_ord"
begin

section \<open>Exceptions and Python primitives\<close>

text \<open>
  The script \<^verbatim>\<open>autocalibration_script.py\<close> is a linear pipeline: load, fit, plot, save.
  Every exception that can surface from a step is a constructor of \<open>error\<close>; a step
  returns \<open>error + 'a\<close> with \<open>Inl\<close> the exception, and a later step only runs when
  the earlier one returned \<open>Inr\<close>.
\<close>

datatype error =
    IndexError                \<comment> \<open>\<^verbatim>\<open>xs[i]\<close> out of range\<close>
  | ValueError                \<comment> \<open>\<^verbatim>\<open>max([])\<close>, \<^verbatim>\<open>xs.index(v)\<close> with \<open>v\<close> absent\<close>
  | DateParseError string     \<comment> \<open>\<^verbatim>\<open>pd.to_datetime\<close> raised on this text\<close>
  | AssertionError string     \<comment> \<open>the \<^verbatim>\<open>assert\<close> of line 53, with its message\<close>
  | OSError string            \<comment> \<open>\<^verbatim>\<open>os.listdir\<close> or \<^verbatim>\<open>open\<close> raised on this path\<close>
  | ReadError string          \<comment> \<open>\<^verbatim>\<open>pd.read_csv\<close> raised on this path\<close>
  | LiteralError string       \<comment> \<open>\<^verbatim>\<open>ast.literal_eval\<close> raised on this text\<close>
  | AttributeError string     \<comment> \<open>the frame has no column of this name\<close>
  | KeyError                  \<comment> \<open>\<^verbatim>\<open>mdf.random_effects[poke]\<close> with \<open>poke\<close> absent\<close>
  | PolyfitError              \<comment> \<open>\<^verbatim>\<open>np.polyfit\<close> raised\<close>
  | MixedLMError              \<comment> \<open>\<^verbatim>\<open>smf.mixedlm(...).fit\<close> raised\<close>
  | PlotError                 \<comment> \<open>seaborn or matplotlib raised\<close>

definition bind_e :: "error + 'a \<Rightarrow> ('a \<Rightarrow> error + 'b) \<Rightarrow> error + 'b" where
  "bind_e m f = (case m of Inl e \<Rightarrow> Inl e | Inr x \<Rightarrow> f x)"

text \<open>A list comprehension whose element expression can raise: the first exception wins.\<close>

fun comprehension :: "('a \<Rightarrow> error + 'b) \<Rightarrow> 'a list \<Rightarrow> error + 'b list" where
  "comprehension f [] = Inr []"
| "comprehension f (x # xs) =
     (case f x of
        Inl e \<Rightarrow> Inl e
      | Inr y \<Rightarrow> (case comprehension f xs of Inl e \<Rightarrow> Inl e | Inr ys \<Rightarrow> Inr (y # ys)))"

text \<open>\<^verbatim>\<open>xs[i]\<close> for a non-negative index.\<close>

definition getitem :: "'a list \<Rightarrow> nat \<Rightarrow> error + 'a" where
  "getitem xs i = (if i < length xs then Inr (xs ! i) else Inl IndexError)"

text \<open>\<^verbatim>\<open>max(xs)\<close>: the first of the greatest elements; \<^verbatim>\<open>ValueError\<close> on an empty list.\<close>

fun py_max :: "'a::linorder list \<Rightarrow> error + 'a" where
  "py_max [] = Inl ValueError"
| "py_max (x # xs) = Inr (foldl (\<lambda>m y. if m < y then y else m) x xs)"

text \<open>\<^verbatim>\<open>xs.index(v)\<close>: the first position of \<open>v\<close>.\<close>

fun index_of :: "'a list \<Rightarrow> 'a \<Rightarrow> error + nat" where
  "index_of [] v = Inl ValueError"
| "index_of (x # xs) v =
     (if x = v then Inr 0 else (case index_of xs v of Inl e \<Rightarrow> Inl e | Inr k \<Rightarrow> Inr (Suc k)))"

text \<open>\<^verbatim>\<open>s.endswith(suf)\<close>.\<close>

definition endswith :: "string \<Rightarrow> string \<Rightarrow> bool" where
  "endswith s suf \<longleftrightarrow> length suf \<le> length s \<and> drop (length s - length suf) s = suf"

text \<open>\<^verbatim>\<open>s.split(c, 1)\<close>: one piece when \<open>c\<close> does not occur, else the text before the
  first \<open>c\<close> and the text after it.\<close>

definition split_once :: "char \<Rightarrow> string \<Rightarrow> string list" where
  "split_once c s =
     (if c \<in> set s then [takeWhile (\<lambda>x. x \<noteq> c) s, tl (dropWhile (\<lambda>x. x \<noteq> c) s)] else [s])"

text \<open>\<^verbatim>\<open>s.split(c)\<close>: all the pieces between occurrences of \<open>c\<close>; never empty.\<close>

fun split_all :: "char \<Rightarrow> string \<Rightarrow> string list" where
  "split_all c [] = [[]]"
| "split_all c (x # xs) =
     (if x = c then [] # split_all c xs
      else (case split_all c xs of [] \<Rightarrow> [[x]] | w # ws \<Rightarrow> (x # w) # ws))"

text \<open>\<^verbatim>\<open>os.path.join(a, b)\<close> on a POSIX system, for two components.\<close>

definition os_path_join :: "string \<Rightarrow> string \<Rightarrow> string" where
  "os_path_join a b =
     (if b \<noteq> [] \<and> hd b = CHR ''/'' then b
      else if a = [] \<or> last a = CHR ''/'' then a @ b
      else a @ ''/'' @ b)"

section \<open>Global variables\<close>

definition AUTOCALIBRATION_DATA_PATH :: string where
  "AUTOCALIBRATION_DATA_PATH = ''autocalibration_data''"

definition AUTOCALIBRATION_RESULTS_PATH :: string where
  "AUTOCALIBRATION_RESULTS_PATH = ''autocalibration_results''"

section \<open>Choosing the data file (lines 47 to 53)\<close>

text \<open>
  \<^verbatim>\<open>pd.to_datetime\<close> is a parameter \<open>td\<close>: \<open>None\<close> when it raises, else the value it
  returns, of a linearly ordered type. On a few texts, the empty one among them, pandas
  raises nothing and returns the not-a-time value \<^verbatim>\<open>NaT\<close>. With a file name requested
  the values are never compared, and \<^verbatim>\<open>NaT\<close> is a value like any other. With no file name
  requested they are compared by \<^verbatim>\<open>max\<close>; \<^verbatim>\<open>NaT\<close> compares false with everything, so
  the order of the model is that of the code only on directories where no name gives
  \<^verbatim>\<open>NaT\<close>.
\<close>

definition name_datetime :: "(string \<Rightarrow> 'dt option) \<Rightarrow> string \<Rightarrow> error + 'dt" where
  "name_datetime td f =
     bind_e (getitem (split_once CHR ''-'' f) 1) (\<lambda>rest.
     bind_e (getitem (split_all CHR ''.'' rest) 0) (\<lambda>txt.
       (case td txt of None \<Rightarrow> Inl (DateParseError txt) | Some t \<Rightarrow> Inr t)))"

definition tsv_files :: "string list \<Rightarrow> string list" where
  "tsv_files listing = filter (\<lambda>f. endswith f ''.tsv'') listing"

definition not_found_message :: "string \<Rightarrow> string" where
  "not_found_message data_filename =
     ''Specified file '' @ data_filename @ '' not found in '' @ AUTOCALIBRATION_DATA_PATH"

text \<open>The exceptions that reading a time stamp off a file name can raise.\<close>

fun is_name_parse_error :: "error \<Rightarrow> bool" where
  "is_name_parse_error IndexError = True"
| "is_name_parse_error (DateParseError txt) = True"
| "is_name_parse_error e = False"

definition select_data_file ::
  "(string \<Rightarrow> 'dt::linorder option) \<Rightarrow> string list \<Rightarrow> string option \<Rightarrow> error + string" where
  "select_data_file td listing data_filename =
     (let autocal_files = tsv_files listing in
      bind_e (comprehension (name_datetime td) autocal_files) (\<lambda>autocal_datetimes.
      bind_e (case data_filename of
                None \<Rightarrow>
                  bind_e (py_max autocal_datetimes) (\<lambda>m.
                  bind_e (index_of autocal_datetimes m) (\<lambda>idx.
                    getitem autocal_files idx))
              | Some f \<Rightarrow> Inr f) (\<lambda>chosen.
        if chosen \<in> set autocal_files then Inr chosen
        else Inl (AssertionError (not_found_message chosen)))))"

section \<open>The event table\<close>

text \<open>
  A float64 value: a finite number (the real it denotes), an infinity or NaN. The numbers
  read from the log are finite and are kept as the reals they denote; taking the absolute
  value of one is exact. What \<^verbatim>\<open>np.polyfit\<close> and the fitted mixed model give are float64
  values of any kind.
\<close>

datatype f64 = Fin real | PosInf | NegInf | NaN

text \<open>
  The float64 arithmetic the script uses is a record of parameters, since its results are
  rounded, can overflow to an infinity, and are an infinity or NaN on a zero divisor
  (pandas raises nothing there):
    \<^item> \<open>series_div x n\<close> is an element of \<^verbatim>\<open>Series.div\<close>, a float cell over an integer cell;
    \<^item> \<open>series_mul v k\<close> is an element of \<^verbatim>\<open>Series.mul\<close> by the integer scalar \<open>k\<close>;
    \<^item> \<open>float_add v w\<close> is \<^verbatim>\<open>v + w\<close> on two numpy floats;
    \<^item> \<open>py_round v n\<close> is \<^verbatim>\<open>round(v, n)\<close> on a numpy float.
\<close>

record float64_arith =
  series_div :: "real \<Rightarrow> int \<Rightarrow> f64"
  series_mul :: "f64 \<Rightarrow> int \<Rightarrow> f64"
  float_add :: "f64 \<Rightarrow> f64 \<Rightarrow> f64"
  py_round :: "f64 \<Rightarrow> nat \<Rightarrow> f64"

text \<open>
  One line of the log as \<^verbatim>\<open>pd.read_csv\<close> returns it; only the two columns the loader
  reads are kept.
\<close>

record tsv_row =
  subtype :: string
  content :: string

text \<open>
  The dictionary a \<^verbatim>\<open>print\<close> line holds, and so a row of the frame built from the list
  of them at line 58. The poke identifier is of any type \<open>'p\<close>.
\<close>

record 'p printed =
  poke :: 'p
  release_duration :: real
  release_weight :: real
  n_release :: int

text \<open>A row of the frame the loader returns: line 60 adds one column.\<close>

record 'p event = "'p printed" +
  single_release_vol :: f64

text \<open>
  The directory and files the script touches. \<open>listdir\<close> and \<open>read_csv\<close> are
  \<open>None\<close> where the call raises; \<open>can_open\<close> tells whether \<^verbatim>\<open>open(path, "w")\<close>
  succeeds; \<open>files\<close> holds the text files written, by path.
\<close>

record filesystem =
  listdir :: "string \<Rightarrow> string list option"
  read_csv :: "string \<Rightarrow> tsv_row list option"
  can_open :: "string \<Rightarrow> bool"
  files :: "string \<Rightarrow> string option"

section \<open>The loader\<close>

text \<open>Lines 59 and 60, on one row: the weight loses its sign, then the volume in
  microlitres is the weight over the number of releases, times 1000.\<close>

definition derive_volume :: "float64_arith \<Rightarrow> 'p printed \<Rightarrow> 'p event" where
  "derive_volume A r =
     (let r' = r\<lparr>release_weight := \<bar>release_weight r\<bar>\<rparr>
      in printed.extend r'
           \<lparr>single_release_vol =
              series_mul A (series_div A (release_weight r') (n_release r')) 1000\<rparr>)"

text \<open>
  Lines 57 to 61. \<open>literal_eval\<close> stands for \<^verbatim>\<open>ast.literal_eval\<close> followed by the frame
  constructor reading the four fields: \<open>None\<close> when the text is no literal. Texts that
  are literals of another shape, or whose numbers are not finite, are outside the model. A
  frame built from no rows has no column, so reading \<^verbatim>\<open>release_weight\<close> raises.
\<close>

definition build_autocal_df ::
  "(string \<Rightarrow> 'p printed option) \<Rightarrow> float64_arith \<Rightarrow> tsv_row list \<Rightarrow>
     error + 'p event list" where
  "build_autocal_df literal_eval A rows =
     bind_e (comprehension
               (\<lambda>r. case literal_eval (content r) of
                      None \<Rightarrow> Inl (LiteralError (content r))
                    | Some d \<Rightarrow> Inr d)
               (filter (\<lambda>r. subtype r = ''print'') rows)) (\<lambda>autocal_results.
       if autocal_results = [] then Inl (AttributeError ''release_weight'')
       else Inr (map (derive_volume A) autocal_results))"

definition load_autocalibration_results ::
  "(string \<Rightarrow> 'dt::linorder option) \<Rightarrow> (string \<Rightarrow> 'p printed option) \<Rightarrow> float64_arith \<Rightarrow>
     filesystem \<Rightarrow> string option \<Rightarrow> error + 'p event list" where
  "load_autocalibration_results to_datetime literal_eval A fs data_filename =
     bind_e (case listdir fs AUTOCALIBRATION_DATA_PATH of
               None \<Rightarrow> Inl (OSError AUTOCALIBRATION_DATA_PATH)
             | Some l \<Rightarrow> Inr l) (\<lambda>listing.
     bind_e (select_data_file to_datetime listing data_filename) (\<lambda>chosen.
       let autocal_path = os_path_join AUTOCALIBRATION_DATA_PATH chosen in
       bind_e (case read_csv fs autocal_path of
                 None \<Rightarrow> Inl (ReadError autocal_path)
               | Some rows \<Rightarrow> Inr rows) (\<lambda>rows.
         build_autocal_df literal_eval A rows)))"

section \<open>Dictionaries and frames\<close>

text \<open>\<^verbatim>\<open>Series.unique()\<close>: the values in order of first appearance.\<close>

fun unique_from :: "'a list \<Rightarrow> 'a list \<Rightarrow> 'a list" where
  "unique_from seen [] = []"
| "unique_from seen (x # xs) =
     (if x \<in> set seen then unique_from seen xs else x # unique_from (x # seen) xs)"

definition unique :: "'a list \<Rightarrow> 'a list" where
  "unique xs = unique_from [] xs"

text \<open>
  A Python dictionary keeps its keys in insertion order: an association list with
  distinct keys. \<^verbatim>\<open>d[k] = v\<close> replaces the value of a key already there and appends a new
  key.
\<close>

definition dict_set :: "('k \<times> 'v) list \<Rightarrow> 'k \<Rightarrow> 'v \<Rightarrow> ('k \<times> 'v) list" where
  "dict_set d k v =
     (if k \<in> fst ` set d then map (\<lambda>(k', v'). if k' = k then (k', v) else (k', v')) d
      else d @ [(k, v)])"

text \<open>
  A data frame of floats: row labels, column labels and the cell at a row and a column,
  NaN where an entry is missing.
\<close>

record ('r, 'c) frame =
  row_labels :: "'r list"
  col_labels :: "'c list"
  cell :: "'r \<Rightarrow> 'c \<Rightarrow> f64"

text \<open>\<^verbatim>\<open>pd.DataFrame(d)\<close> for a dictionary of dictionaries: one column for each outer key,
  one row for each inner key.\<close>

definition DataFrame :: "('c \<times> ('r \<times> f64) list) list \<Rightarrow> ('r, 'c) frame" where
  "DataFrame d =
     \<lparr>row_labels = unique (concat (map (\<lambda>(c, inner). map fst inner) d)),
      col_labels = map fst d,
      cell = (\<lambda>r c. case map_of d c of
                       None \<Rightarrow> NaN
                     | Some inner \<Rightarrow> (case map_of inner r of None \<Rightarrow> NaN | Some v \<Rightarrow> v))\<rparr>"

text \<open>\<^verbatim>\<open>frame.T\<close>.\<close>

definition transpose_frame :: "('r, 'c) frame \<Rightarrow> ('c, 'r) frame" where
  "transpose_frame f =
     \<lparr>row_labels = col_labels f, col_labels = row_labels f, cell = (\<lambda>r c. cell f c r)\<rparr>"

text \<open>\<^verbatim>\<open>frame.to_dict()\<close>: for each column, the dictionary from row label to cell.\<close>

definition to_dict :: "('r, 'c) frame \<Rightarrow> ('c \<times> ('r \<times> f64) list) list" where
  "to_dict f = map (\<lambda>c. (c, map (\<lambda>r. (r, cell f r c)) (row_labels f))) (col_labels f)"

section \<open>The independent regression fitter\<close>

text \<open>
  \<^verbatim>\<open>np.polyfit(x, y, deg=1)\<close> is a parameter: \<open>None\<close> when it raises, else the slope and
  the intercept. The loop of lines 91 to 94 runs over the pokes with the dictionary built
  so far.
\<close>

type_synonym polyfit = "f64 list \<Rightarrow> real list \<Rightarrow> (f64 \<times> f64) option"

type_synonym 'p poke2fit = "('p \<times> (string \<times> f64) list) list"

text \<open>The dictionary \<^verbatim>\<open>{"s": round(slope, 2), "i": round(intercept, 2)}\<close> of lines 94
  and 112.\<close>

definition fit_entry :: "float64_arith \<Rightarrow> f64 \<Rightarrow> f64 \<Rightarrow> (string \<times> f64) list" where
  "fit_entry A slope intercept =
     [(''s'', py_round A slope 2), (''i'', py_round A intercept 2)]"

definition poke_df :: "'p event list \<Rightarrow> 'p \<Rightarrow> 'p event list" where
  "poke_df autocal_df p = filter (\<lambda>e. poke e = p) autocal_df"

text \<open>Lines 92 and 93: the line fitted to the events of one poke.\<close>

definition fit_poke :: "polyfit \<Rightarrow> 'p event list \<Rightarrow> 'p \<Rightarrow> (f64 \<times> f64) option" where
  "fit_poke pf autocal_df p =
     pf (map single_release_vol (poke_df autocal_df p))
        (map release_duration (poke_df autocal_df p))"

fun linear_regression_loop ::
  "polyfit \<Rightarrow> float64_arith \<Rightarrow> 'p event list \<Rightarrow> 'p list \<Rightarrow> 'p poke2fit \<Rightarrow>
     error + 'p poke2fit" where
  "linear_regression_loop pf A autocal_df [] poke2fit = Inr poke2fit"
| "linear_regression_loop pf A autocal_df (p # ps) poke2fit =
     (case fit_poke pf autocal_df p of
        None \<Rightarrow> Inl PolyfitError
      | Some (slope, intercept) \<Rightarrow>
          linear_regression_loop pf A autocal_df ps
            (dict_set poke2fit p (fit_entry A slope intercept)))"

definition linear_regression_poke2fit ::
  "polyfit \<Rightarrow> float64_arith \<Rightarrow> 'p event list \<Rightarrow> error + 'p poke2fit" where
  "linear_regression_poke2fit pf A autocal_df =
     linear_regression_loop pf A autocal_df (unique (map poke autocal_df)) []"

definition get_linear_regression_parameters ::
  "polyfit \<Rightarrow> float64_arith \<Rightarrow> 'p event list \<Rightarrow> error + ('p, string) frame" where
  "get_linear_regression_parameters pf A autocal_df =
     bind_e (linear_regression_poke2fit pf A autocal_df) (\<lambda>poke2fit.
       Inr (transpose_frame (DataFrame poke2fit)))"

section \<open>The mixed effects regression fitter\<close>

text \<open>
  What the script reads of the fitted model \<^verbatim>\<open>mdf\<close>: the two fixed effects, and for a
  poke its two random effects (\<^verbatim>\<open>Group\<close> for the intercept, then the slope), \<open>None\<close>
  where the lookup raises. Building the model and \<^verbatim>\<open>fit(method=["lbfgs"])\<close> are one
  parameter \<open>mixedlm_fit\<close>, \<open>None\<close> when either raises.
\<close>

record 'p mixedlm_results =
  fe_Intercept :: f64
  fe_single_release_vol :: f64
  random_effects :: "'p \<Rightarrow> (f64 \<times> f64) option"

type_synonym 'p mixedlm = "'p event list \<Rightarrow> 'p mixedlm_results option"

fun mixed_effects_loop ::
  "float64_arith \<Rightarrow> 'p mixedlm_results \<Rightarrow> 'p list \<Rightarrow> 'p poke2fit \<Rightarrow> error + 'p poke2fit" where
  "mixed_effects_loop A mdf [] poke2fit = Inr poke2fit"
| "mixed_effects_loop A mdf (p # ps) poke2fit =
     (case random_effects mdf p of
        None \<Rightarrow> Inl KeyError
      | Some (re_Group, re_single_release_vol) \<Rightarrow>
          (let slope = float_add A (fe_single_release_vol mdf) re_single_release_vol;
               intercept = float_add A (fe_Intercept mdf) re_Group
           in mixed_effects_loop A mdf ps
                (dict_set poke2fit p (fit_entry A slope intercept))))"

definition mixed_effects_poke2fit ::
  "'p mixedlm \<Rightarrow> float64_arith \<Rightarrow> 'p event list \<Rightarrow> error + 'p poke2fit" where
  "mixed_effects_poke2fit mixedlm_fit A autocal_df =
     (case mixedlm_fit autocal_df of
        None \<Rightarrow> Inl MixedLMError
      | Some mdf \<Rightarrow> mixed_effects_loop A mdf (unique (map poke autocal_df)) [])"

definition get_mixed_effects_regression_parameters ::
  "'p mixedlm \<Rightarrow> float64_arith \<Rightarrow> 'p event list \<Rightarrow> error + ('p, string) frame" where
  "get_mixed_effects_regression_parameters mixedlm_fit A autocal_df =
     bind_e (mixed_effects_poke2fit mixedlm_fit A autocal_df) (\<lambda>poke2fit.
       Inr (transpose_frame (DataFrame poke2fit)))"

section \<open>The entry point\<close>

text \<open>
  The library calls the script makes, as one record of parameters. \<open>show_plots\<close> stands
  for the body of \<^verbatim>\<open>plot_poke_calibration_fits\<close>, which only calls seaborn and
  matplotlib: \<open>False\<close> when it raises. \<open>py_repr\<close> is \<^verbatim>\<open>repr\<close> on the dictionary that
  \<^verbatim>\<open>to_dict\<close> returns. \<open>arith\<close> is the float64 arithmetic.
\<close>

record ('dt, 'p) libraries =
  to_datetime :: "string \<Rightarrow> 'dt option"
  literal_eval :: "string \<Rightarrow> 'p printed option"
  arith :: float64_arith
  np_polyfit :: polyfit
  mixedlm_fit :: "'p mixedlm"
  show_plots :: "'p event list \<Rightarrow> ('p, string) frame \<Rightarrow> bool"
  py_repr :: "('p \<times> (string \<times> f64) list) list \<Rightarrow> string"

text \<open>
  Lines 30 to 41. The result is the value returned or the exception raised, with the
  file system after the call. \<^verbatim>\<open>open(save_path, "w")\<close> and the single \<^verbatim>\<open>write\<close> leave
  exactly the written text at \<open>save_path\<close>.
\<close>

definition get_poke_calibration_parameters ::
  "('dt::linorder, 'p) libraries \<Rightarrow> filesystem \<Rightarrow> string option \<Rightarrow> bool \<Rightarrow> bool \<Rightarrow> string \<Rightarrow>
     (error + ('p, string) frame \<times> ('p, string) frame) \<times> filesystem" where
  "get_poke_calibration_parameters L fs data_filename plot save_mixed_effects save_filename =
     (case load_autocalibration_results (to_datetime L) (literal_eval L) (arith L) fs
             data_filename of
        Inl e \<Rightarrow> (Inl e, fs)
      | Inr autocal_df \<Rightarrow>
     (case get_linear_regression_parameters (np_polyfit L) (arith L) autocal_df of
        Inl e \<Rightarrow> (Inl e, fs)
      | Inr poke2fit_lr_params \<Rightarrow>
     (case get_mixed_effects_regression_parameters (mixedlm_fit L) (arith L) autocal_df of
        Inl e \<Rightarrow> (Inl e, fs)
      | Inr poke2fit_me_params \<Rightarrow>
          if plot \<and> \<not> show_plots L autocal_df poke2fit_me_params then (Inl PlotError, fs)
          else
            (let save_path = os_path_join AUTOCALIBRATION_RESULTS_PATH save_filename in
             if \<not> can_open fs save_path then (Inl (OSError save_path), fs)
             else
               (Inr (poke2fit_lr_params, poke2fit_me_params),
                fs\<lparr>files := (files fs)(save_path \<mapsto>
                      py_repr L (to_dict (transpose_frame
                        (if save_mixed_effects then poke2fit_me_params
                         else poke2fit_lr_params))))\<rparr>)))))"

section \<open>Least squares\<close>



section \<open>Example data\<close>

text \<open>A parser for the examples: a text of decimal digits is read as that number
  (\<^verbatim>\<open>20230615\<close> is a date pandas accepts), and it raises on the other texts of the
  examples it is used in, none of which is empty.\<close>

definition digit_stamp :: "string \<Rightarrow> nat option" where
  "digit_stamp s =
     (if s \<noteq> [] \<and> set s \<subseteq> set ''0123456789''
      then Some (foldl (\<lambda>n c. 10 * n + (of_char c - 48)) (0::nat) s) else None)"

text \<open>The same parser with what pandas does on the empty text: it raises nothing and
  returns \<^verbatim>\<open>NaT\<close>, here the value \<open>None\<close> among the time stamps.\<close>

definition stamp_or_NaT :: "string \<Rightarrow> nat option option" where
  "stamp_or_NaT s = (if s = [] then Some None else map_option Some (digit_stamp s))"

text \<open>
  Exact arithmetic stands in for float64 arithmetic in the examples: quotient, product and
  sum are those of the reals (with the infinities and NaN of a zero divisor, and the usual
  sums with an infinity or NaN), and rounding is to \<open>n\<close> decimal places, a tie to the even
  neighbour. On the log lines of the examples float64 arithmetic ends in the same
  volumes, 5, 3, 10 and 6.
\<close>

definition exact_div :: "real \<Rightarrow> int \<Rightarrow> f64" where
  "exact_div x n =
     (if n \<noteq> 0 then Fin (x / of_int n)
      else if 0 < x then PosInf else if x < 0 then NegInf else NaN)"

fun exact_mul :: "f64 \<Rightarrow> int \<Rightarrow> f64" where
  "exact_mul (Fin x) k = Fin (x * of_int k)"
| "exact_mul PosInf k = (if 0 < k then PosInf else if k < 0 then NegInf else NaN)"
| "exact_mul NegInf k = (if 0 < k then NegInf else if k < 0 then PosInf else NaN)"
| "exact_mul NaN k = NaN"

definition rint :: "real \<Rightarrow> int" where
  "rint x =
     (let f = \<lfloor>x\<rfloor>; d = x - of_int f
      in if d < 1 / 2 then f else if 1 / 2 < d then f + 1 else if even f then f else f + 1)"

fun exact_round :: "f64 \<Rightarrow> nat \<Rightarrow> f64" where
  "exact_round (Fin x) n = Fin (of_int (rint (x * 10 ^ n)) / 10 ^ n)"
| "exact_round v n = v"

fun exact_add :: "f64 \<Rightarrow> f64 \<Rightarrow> f64" where
  "exact_add (Fin x) (Fin y) = Fin (x + y)"
| "exact_add NaN w = NaN"
| "exact_add v NaN = NaN"
| "exact_add PosInf NegInf = NaN"
| "exact_add NegInf PosInf = NaN"
| "exact_add PosInf w = PosInf"
| "exact_add v PosInf = PosInf"
| "exact_add NegInf w = NegInf"
| "exact_add v NegInf = NegInf"

definition exact_arith :: float64_arith where
  "exact_arith =
     \<lparr>series_div = exact_div, series_mul = exact_mul,
      float_add = exact_add, py_round = exact_round\<rparr>"

text \<open>The finite values of a column, when all of them are finite.\<close>

fun finite_values :: "f64 list \<Rightarrow> real list option" where
  "finite_values [] = Some []"
| "finite_values (Fin x # fs) = map_option ((#) x) (finite_values fs)"
| "finite_values (v # fs) = None"

text \<open>The closed form of the least squares line through points whose abscissas are not
  all equal; the examples use it for \<^verbatim>\<open>np.polyfit\<close>. It gives \<open>None\<close> on all other
  data, which the examples do not contain.\<close>

definition closed_form_polyfit :: polyfit where
  "closed_form_polyfit fxs ys =
     (case finite_values fxs of
        None \<Rightarrow> None
      | Some xs \<Rightarrow>
          (let n = real (length xs);
               sx = sum_list xs; sy = sum_list ys;
               sxx = sum_list (map (\<lambda>x. x * x) xs);
               sxy = sum_list (map (\<lambda>(x, y). x * y) (zip xs ys));
               den = n * sxx - sx * sx
           in if length xs \<noteq> length ys \<or> den = 0 then None
              else (let slope = (n * sxy - sx * sy) / den
                    in Some (Fin slope, Fin ((sy - slope * sx) / n)))))"

text \<open>Two log lines for poke A (duration = 10 + 6 * volume, one weight negative) and two
  for poke B (duration = 20.004 + 4.126 * volume), between lines of other subtypes.\<close>

definition example_literals :: "(string \<times> string printed) list" where
  "example_literals =
     [(''a1'', \<lparr>poke = ''A'', release_duration = 40, release_weight = - 0.5, n_release = 100\<rparr>),
      (''a2'', \<lparr>poke = ''A'', release_duration = 70, release_weight = 1, n_release = 100\<rparr>),
      (''b1'', \<lparr>poke = ''B'', release_duration = 32.382, release_weight = 0.3, n_release = 100\<rparr>),
      (''b2'', \<lparr>poke = ''B'', release_duration = 44.76, release_weight = 0.6, n_release = 100\<rparr>)]"

definition example_rows :: "tsv_row list" where
  "example_rows =
     [\<lparr>subtype = ''run_start'', content = ''x''\<rparr>,
      \<lparr>subtype = ''print'', content = ''a1''\<rparr>,
      \<lparr>subtype = ''print'', content = ''b1''\<rparr>,
      \<lparr>subtype = ''sync'', content = ''x''\<rparr>,
      \<lparr>subtype = ''print'', content = ''a2''\<rparr>,
      \<lparr>subtype = ''print'', content = ''b2''\<rparr>]"

definition example_listing :: "string list" where
  "example_listing =
     [''run-20230101.tsv'', ''run-20230615.tsv'', ''notes.txt'', ''run-20221231.tsv'']"

definition example_fs :: filesystem where
  "example_fs =
     \<lparr>listdir = (\<lambda>p. if p = ''autocalibration_data'' then Some example_listing else None),
      read_csv = (\<lambda>p. if p = ''autocalibration_data/run-20230615.tsv'' then Some example_rows
                       else if p = ''autocalibration_data/run-20230101.tsv'' then Some []
                       else None),
      can_open = (\<lambda>p. True),
      files = (\<lambda>p. None)\<rparr>"

text \<open>The table the loader builds from these lines.\<close>

definition example_table :: "string event list" where
  "example_table =
     [\<lparr>poke = ''A'', release_duration = 40, release_weight = 0.5, n_release = 100,
        single_release_vol = Fin 5\<rparr>,
      \<lparr>poke = ''B'', release_duration = 32.382, release_weight = 0.3, n_release = 100,
        single_release_vol = Fin 3\<rparr>,
      \<lparr>poke = ''A'', release_duration = 70, release_weight = 1, n_release = 100,
        single_release_vol = Fin 10\<rparr>,
      \<lparr>poke = ''B'', release_duration = 44.76, release_weight = 0.6, n_release = 100,
        single_release_vol = Fin 6\<rparr>]"

text \<open>The example directory with another listing.\<close>

definition example_fs_listing :: "string list \<Rightarrow> filesystem" where
  "example_fs_listing names =
     example_fs\<lparr>listdir := (\<lambda>p. if p = ''autocalibration_data'' then Some names else None)\<rparr>"

text \<open>A data directory that holds just the given names, none of them readable.\<close>

definition listing_fs :: "string list \<Rightarrow> filesystem" where
  "listing_fs names =
     \<lparr>listdir = (\<lambda>p. if p = ''autocalibration_data'' then Some names else None),
      read_csv = (\<lambda>p. None),
      can_open = (\<lambda>p. True),
      files = (\<lambda>p. None)\<rparr>"

text \<open>A fitted model for the examples: fixed effects 15 and 5, and for every poke of the
  table the random effects 0.004 (intercept) and 0.126 (slope).\<close>

definition example_mixedlm :: "string mixedlm" where
  "example_mixedlm autocal_df =
     Some \<lparr>fe_Intercept = Fin 15, fe_single_release_vol = Fin 5,
           random_effects =
             (\<lambda>p. if p \<in> poke ` set autocal_df then Some (Fin 0.004, Fin 0.126) else None)\<rparr>"

text \<open>A model whose optimisation raises.\<close>

definition failing_mixedlm :: "string mixedlm" where
  "failing_mixedlm autocal_df = None"

text \<open>The frames the two fitters return on the example table.\<close>

definition example_lr_params :: "(string, string) frame" where
  "example_lr_params =
     transpose_frame (DataFrame
       [(''A'', [(''s'', Fin 6), (''i'', Fin 10)]), (''B'', [(''s'', Fin 4.13), (''i'', Fin 20)])])"

definition example_me_params :: "(string, string) frame" where
  "example_me_params =
     transpose_frame (DataFrame
       [(''A'', [(''s'', Fin 5.13), (''i'', Fin 15)]), (''B'', [(''s'', Fin 5.13), (''i'', Fin 15)])])"

text \<open>
  In the examples \<^verbatim>\<open>repr\<close> writes a dictionary of dictionaries the way Python does, with
  the text of a float taken from a table of the six numbers that occur in the fits of the
  example table.
\<close>

definition example_float_repr :: "f64 \<Rightarrow> string" where
  "example_float_repr v =
     (if v = Fin 6 then ''6.0'' else if v = Fin 10 then ''10.0''
      else if v = Fin 4.13 then ''4.13'' else if v = Fin 20 then ''20.0''
      else if v = Fin 5.13 then ''5.13'' else if v = Fin 15 then ''15.0''
      else ''nan'')"

fun join_with :: "string \<Rightarrow> string list \<Rightarrow> string" where
  "join_with sep [] = []"
| "join_with sep [x] = x"
| "join_with sep (x # y # ys) = x @ sep @ join_with sep (y # ys)"

definition quoted :: "string \<Rightarrow> string" where
  "quoted s = [CHR 0x27] @ s @ [CHR 0x27]"

definition example_repr :: "(string \<times> (string \<times> f64) list) list \<Rightarrow> string" where
  "example_repr d =
     ''{'' @ join_with '', ''
        (map (\<lambda>(p, inner).
           quoted p @ '': {'' @
           join_with '', '' (map (\<lambda>(k, v). quoted k @ '': '' @ example_float_repr v) inner) @
           ''}'') d) @ ''}''"

definition example_libraries :: "string mixedlm \<Rightarrow> (nat, string) libraries" where
  "example_libraries fit =
     \<lparr>to_datetime = digit_stamp,
      literal_eval = map_of example_literals,
      arith = exact_arith,
      np_polyfit = closed_form_polyfit,
      mixedlm_fit = fit,
      show_plots = (\<lambda>autocal_df poke2fit_me_params. True),
      py_repr = example_repr\<rparr>"

section \<open>Facts about the primitives\<close>

lemma comprehension_all_ok:
  "\<forall>x \<in> set xs. f x = Inr (g x) \<Longrightarrow> comprehension f xs = Inr (map g xs)"
  by (induction xs) auto

lemma comprehension_Inr_map:
  "comprehension f xs = Inr ys \<Longrightarrow> map f xs = map Inr ys"
  by (induction xs arbitrary: ys) (auto split: sum.splits)

lemma comprehension_first_failure:
  "x \<in> set xs \<Longrightarrow> f x = Inl e \<Longrightarrow>
     \<exists>y e'. y \<in> set xs \<and> f y = Inl e' \<and> comprehension f xs = Inl e'"
proof (induction xs)
  case Nil
  then show ?case by simp
next
  case (Cons a xs)
  show ?case
  proof (cases "f a")
    case (Inl e0)
    then show ?thesis by auto
  next
    case (Inr b)
    with Cons.prems have "x \<in> set xs" by auto
    from Cons.IH [OF this Cons.prems(2)] obtain y e' where
      "y \<in> set xs" "f y = Inl e'" "comprehension f xs = Inl e'" by blast
    with Inr show ?thesis by auto
  qed
qed

lemma comprehension_Inl_source:
  "comprehension f xs = Inl e \<Longrightarrow> \<exists>y \<in> set xs. f y = Inl e"
  by (induction xs) (auto split: sum.splits)

lemma py_max_step: "(\<lambda>m y. if m < y then y else m) = (max :: 'a::linorder \<Rightarrow> 'a \<Rightarrow> 'a)"
  by (auto simp: max_def fun_eq_iff)

lemma foldl_max_Max: "foldl max x xs = Max (set (x # xs))" for x :: "'a::linorder"
proof (induction xs arbitrary: x)
  case Nil
  then show ?case by simp
next
  case (Cons a xs)
  have "Max (set (x # a # xs)) = Max (insert (max x a) (set xs))"
    by (cases "xs = []") (simp_all add: max.assoc)
  with Cons show ?case by simp
qed

lemma py_max_Max: "xs \<noteq> [] \<Longrightarrow> py_max xs = Inr (Max (set xs))"
  by (cases xs) (simp_all add: py_max_step foldl_max_Max del: Max_insert set_simps)

lemma index_of_first:
  "v \<in> set xs \<Longrightarrow> \<exists>k. index_of xs v = Inr k \<and> k < length xs \<and> xs ! k = v"
  by (induction xs) auto

lemma split_all_nonempty: "split_all c s \<noteq> []"
  by (induction s) (auto split: list.splits)

lemma name_datetime_errors: "name_datetime td f = Inl e \<Longrightarrow> is_name_parse_error e"
  using split_all_nonempty
  by (auto simp: name_datetime_def bind_e_def getitem_def split: sum.splits option.splits if_splits)

lemma tsv_files_cong: "set listing' = set listing \<Longrightarrow> set (tsv_files listing') = set (tsv_files listing)"
  by (simp add: tsv_files_def)

section \<open>Facts about choosing the data file\<close>

lemma select_newest:
  assumes ne: "tsv_files listing \<noteq> []"
    and ok: "\<forall>f \<in> set (tsv_files listing). name_datetime td f = Inr (stamp f)"
  shows "\<exists>f. select_data_file td listing None = Inr f \<and> f \<in> set (tsv_files listing) \<and>
           stamp f = Max (stamp ` set (tsv_files listing))"
proof -
  let ?fs = "tsv_files listing"
  let ?ds = "map stamp ?fs"
  have c: "comprehension (name_datetime td) ?fs = Inr ?ds"
    using ok by (rule comprehension_all_ok)
  have dne: "?ds \<noteq> []" using ne by simp
  have m: "py_max ?ds = Inr (Max (set ?ds))" using dne by (rule py_max_Max)
  have "Max (set ?ds) \<in> set ?ds" using dne by (intro Max_in) auto
  from index_of_first [OF this] obtain k where
    k: "index_of ?ds (Max (set ?ds)) = Inr k" "k < length ?ds" "?ds ! k = Max (set ?ds)"
    by blast
  have kf: "k < length ?fs" using k(2) by simp
  have g: "getitem ?fs k = Inr (?fs ! k)" using kf by (simp add: getitem_def)
  have mem: "?fs ! k \<in> set ?fs" using kf by simp
  have st: "stamp (?fs ! k) = Max (stamp ` set ?fs)" using k(3) kf by simp
  have "select_data_file td listing None = Inr (?fs ! k)"
    using c m k(1) g mem by (simp add: select_data_file_def bind_e_def Let_def)
  with mem st show ?thesis by blast
qed

lemma select_named_present:
  assumes ok: "\<forall>f \<in> set (tsv_files listing). name_datetime td f = Inr (stamp f)"
    and mem: "f \<in> set (tsv_files listing)"
  shows "select_data_file td listing (Some f) = Inr f"
proof -
  have "comprehension (name_datetime td) (tsv_files listing) = Inr (map stamp (tsv_files listing))"
    using ok by (rule comprehension_all_ok)
  with mem show ?thesis by (simp add: select_data_file_def bind_e_def Let_def)
qed

lemma select_named_absent:
  assumes ok: "\<forall>f \<in> set (tsv_files listing). name_datetime td f = Inr (stamp f)"
    and absent: "f \<notin> set (tsv_files listing)"
  shows "select_data_file td listing (Some f) = Inl (AssertionError (not_found_message f))"
proof -
  have "comprehension (name_datetime td) (tsv_files listing) = Inr (map stamp (tsv_files listing))"
    using ok by (rule comprehension_all_ok)
  with absent show ?thesis by (simp add: select_data_file_def bind_e_def Let_def)
qed

lemma select_result_listed:
  "select_data_file td listing data_filename = Inr f \<Longrightarrow> f \<in> set (tsv_files listing)"
  by (auto simp: select_data_file_def bind_e_def Let_def split: sum.splits if_splits)

lemma select_named_result:
  "select_data_file td listing (Some g) = Inr f \<Longrightarrow> f = g"
  by (auto simp: select_data_file_def bind_e_def Let_def split: sum.splits if_splits)

lemma select_assertion_only_when_absent:
  assumes a: "select_data_file td listing (Some g) = Inl (AssertionError m)"
  shows "g \<notin> set (tsv_files listing)"
proof (cases "comprehension (name_datetime td) (tsv_files listing)")
  case (Inl e)
  then obtain y where "name_datetime td y = Inl e"
    using comprehension_Inl_source by blast
  then have "is_name_parse_error e" by (rule name_datetime_errors)
  moreover have "e = AssertionError m"
    using a Inl by (simp add: select_data_file_def bind_e_def Let_def)
  ultimately show ?thesis by simp
next
  case (Inr ds)
  with a show ?thesis
    by (auto simp: select_data_file_def bind_e_def Let_def split: if_splits)
qed

section \<open>Facts about the loader\<close>

lemma load_after_listing:
  "listdir fs AUTOCALIBRATION_DATA_PATH = Some listing \<Longrightarrow>
   load_autocalibration_results td le A fs data_filename =
     bind_e (select_data_file td listing data_filename) (\<lambda>chosen.
       bind_e (case read_csv fs (os_path_join AUTOCALIBRATION_DATA_PATH chosen) of
                 None \<Rightarrow> Inl (ReadError (os_path_join AUTOCALIBRATION_DATA_PATH chosen))
               | Some rows \<Rightarrow> Inr rows) (build_autocal_df le A))"
  by (simp add: load_autocalibration_results_def bind_e_def Let_def)

lemma load_select_error:
  "listdir fs AUTOCALIBRATION_DATA_PATH = Some listing \<Longrightarrow>
   select_data_file td listing data_filename = Inl e \<Longrightarrow>
   load_autocalibration_results td le A fs data_filename = Inl e"
  by (simp add: load_after_listing bind_e_def)

lemma build_never_asserts: "build_autocal_df le A rows \<noteq> Inl (AssertionError m)"
proof
  assume a: "build_autocal_df le A rows = Inl (AssertionError m)"
  let ?f = "\<lambda>r. case le (content r) of None \<Rightarrow> Inl (LiteralError (content r)) | Some d \<Rightarrow> Inr d"
  let ?rs = "filter (\<lambda>r. subtype r = ''print'') rows"
  show False
  proof (cases "comprehension ?f ?rs")
    case (Inl e)
    from comprehension_Inl_source [of ?f ?rs e, OF this]
    obtain y where "y \<in> set ?rs" and "?f y = Inl e" by (rule bexE)
    from this(2)
    have "e \<noteq> AssertionError m" by (auto split: option.splits)
    moreover have "e = AssertionError m"
      using a Inl by (simp add: build_autocal_df_def bind_e_def)
    ultimately show False by simp
  next
    case (Inr ds)
    with a show False by (simp add: build_autocal_df_def bind_e_def split: if_splits)
  qed
qed

lemma load_assertion_from_select:
  assumes dir: "listdir fs AUTOCALIBRATION_DATA_PATH = Some listing"
    and a: "load_autocalibration_results td le A fs data_filename = Inl (AssertionError m)"
  shows "select_data_file td listing data_filename = Inl (AssertionError m)"
proof (cases "select_data_file td listing data_filename")
  case (Inl e)
  with dir a show ?thesis by (simp add: load_after_listing bind_e_def)
next
  case (Inr chosen)
  with dir a build_never_asserts [of le A _ m] show ?thesis
    by (auto simp: load_after_listing bind_e_def split: option.splits)
qed

lemma message_names_file: "sublist f (not_found_message f)"
  unfolding not_found_message_def sublist_def by blast

lemma message_names_directory: "sublist AUTOCALIBRATION_DATA_PATH (not_found_message f)"
proof -
  have "not_found_message f = (''Specified file '' @ f @ '' not found in '') @ AUTOCALIBRATION_DATA_PATH @ []"
    by (simp add: not_found_message_def)
  then show ?thesis unfolding sublist_def by blast
qed

section \<open>The example directory\<close>

lemma example_dir: "listdir example_fs AUTOCALIBRATION_DATA_PATH = Some example_listing"
  by (simp add: example_fs_def AUTOCALIBRATION_DATA_PATH_def)

lemma example_files:
  "tsv_files example_listing = [''run-20230101.tsv'', ''run-20230615.tsv'', ''run-20221231.tsv'']"
  by (simp add: example_listing_def tsv_files_def endswith_def)

lemma example_stamps:
  "name_datetime digit_stamp ''run-20230101.tsv'' = Inr 20230101"
  "name_datetime digit_stamp ''run-20230615.tsv'' = Inr 20230615"
  "name_datetime digit_stamp ''run-20221231.tsv'' = Inr 20221231"
  by (simp_all add: name_datetime_def bind_e_def getitem_def split_once_def digit_stamp_def)

lemma example_read:
  "read_csv example_fs (os_path_join AUTOCALIBRATION_DATA_PATH ''run-20230615.tsv'') =
     Some example_rows"
  by (simp add: example_fs_def os_path_join_def AUTOCALIBRATION_DATA_PATH_def)

lemma example_build:
  "build_autocal_df (map_of example_literals) exact_arith example_rows = Inr example_table"
  by (simp add: build_autocal_df_def example_rows_def example_literals_def bind_e_def
      derive_volume_def printed.defs exact_arith_def exact_div_def example_table_def)

section \<open>The most recent file is chosen\<close>

text \<open>
  Claim C2. When the data directory holds at least one \<^verbatim>\<open>.tsv\<close> file and the name of
  each encodes a time stamp after its first hyphen, a call with no file name chooses a
  file whose time stamp is the greatest, and returns the table built from the lines of
  that file (or the error of reading it), which is what a call naming that file returns.
  The choice does not depend on the order of the directory listing: every listing of the
  same names yields a file of the same, greatest, time stamp, and, when no two names carry
  the same time stamp, the same file and the same result of the call. Nothing but the
  names enters the choice.
\<close>

theorem most_recent_file_is_loaded:
  assumes dir: "listdir fs AUTOCALIBRATION_DATA_PATH = Some listing"
    and ne: "tsv_files listing \<noteq> []"
    and ok: "\<forall>f \<in> set (tsv_files listing). name_datetime td f = Inr (stamp f)"
  shows "\<exists>f. select_data_file td listing None = Inr f \<and>
           f \<in> set (tsv_files listing) \<and>
           stamp f = Max (stamp ` set (tsv_files listing)) \<and>
           load_autocalibration_results td le A fs None =
             (case read_csv fs (os_path_join AUTOCALIBRATION_DATA_PATH f) of
                None \<Rightarrow> Inl (ReadError (os_path_join AUTOCALIBRATION_DATA_PATH f))
              | Some rows \<Rightarrow> build_autocal_df le A rows) \<and>
           load_autocalibration_results td le A fs None =
             load_autocalibration_results td le A fs (Some f) \<and>
           (\<forall>listing'. set listing' = set listing \<longrightarrow>
              (\<exists>f'. select_data_file td listing' None = Inr f' \<and> stamp f' = stamp f \<and>
                 (inj_on stamp (set (tsv_files listing)) \<longrightarrow>
                    f' = f \<and>
                    load_autocalibration_results td le A
                      (fs\<lparr>listdir := (listdir fs)(AUTOCALIBRATION_DATA_PATH \<mapsto> listing')\<rparr>) None =
                    load_autocalibration_results td le A fs None)))"
proof -
  from select_newest [OF ne ok] obtain f where
    f: "select_data_file td listing None = Inr f" "f \<in> set (tsv_files listing)"
       "stamp f = Max (stamp ` set (tsv_files listing))"
    by blast
  have named: "select_data_file td listing (Some f) = Inr f"
    using ok f(2) by (rule select_named_present)
  have loaded: "load_autocalibration_results td le A fs None =
      (case read_csv fs (os_path_join AUTOCALIBRATION_DATA_PATH f) of
         None \<Rightarrow> Inl (ReadError (os_path_join AUTOCALIBRATION_DATA_PATH f))
       | Some rows \<Rightarrow> build_autocal_df le A rows)"
    using f(1) by (simp add: load_after_listing [OF dir] bind_e_def split: option.splits)
  have same_load: "load_autocalibration_results td le A fs None =
      load_autocalibration_results td le A fs (Some f)"
    using f(1) named by (simp add: load_after_listing [OF dir])
  have perm: "\<exists>f'. select_data_file td listing' None = Inr f' \<and> stamp f' = stamp f \<and>
      (inj_on stamp (set (tsv_files listing)) \<longrightarrow>
         f' = f \<and>
         load_autocalibration_results td le A
           (fs\<lparr>listdir := (listdir fs)(AUTOCALIBRATION_DATA_PATH \<mapsto> listing')\<rparr>) None =
         load_autocalibration_results td le A fs None)"
    if eq: "set listing' = set listing" for listing'
  proof -
    let ?fs' = "fs\<lparr>listdir := (listdir fs)(AUTOCALIBRATION_DATA_PATH \<mapsto> listing')\<rparr>"
    have s: "set (tsv_files listing') = set (tsv_files listing)"
      using eq by (rule tsv_files_cong)
    have ne': "tsv_files listing' \<noteq> []" using ne s by auto
    have ok': "\<forall>g \<in> set (tsv_files listing'). name_datetime td g = Inr (stamp g)"
      using ok s by simp
    from select_newest [OF ne' ok'] obtain f' where
      f': "select_data_file td listing' None = Inr f'" "f' \<in> set (tsv_files listing')"
          "stamp f' = Max (stamp ` set (tsv_files listing'))"
      by blast
    have st: "stamp f' = stamp f" using f'(3) f(3) s by simp
    have dir': "listdir ?fs' AUTOCALIBRATION_DATA_PATH = Some listing'" by simp
    have "f' = f \<and> load_autocalibration_results td le A ?fs' None =
        load_autocalibration_results td le A fs None"
      if inj: "inj_on stamp (set (tsv_files listing))"
    proof -
      have e: "f' = f" using inj st f'(2) f(2) s by (auto dest: inj_onD)
      have "load_autocalibration_results td le A ?fs' None =
          load_autocalibration_results td le A fs None"
        using f'(1) f(1) e by (simp add: load_after_listing [OF dir'] load_after_listing [OF dir])
      with e show ?thesis by simp
    qed
    with f'(1) st show ?thesis by blast
  qed
  from f loaded same_load perm show ?thesis by blast
qed

theorem most_recent_file_is_loaded_witness:
  "listdir example_fs AUTOCALIBRATION_DATA_PATH = Some example_listing \<and>
   tsv_files example_listing = [''run-20230101.tsv'', ''run-20230615.tsv'', ''run-20221231.tsv''] \<and>
   name_datetime digit_stamp ''run-20230101.tsv'' = Inr 20230101 \<and>
   name_datetime digit_stamp ''run-20230615.tsv'' = Inr 20230615 \<and>
   name_datetime digit_stamp ''run-20221231.tsv'' = Inr 20221231 \<and>
   select_data_file digit_stamp example_listing None = Inr ''run-20230615.tsv'' \<and>
   select_data_file digit_stamp (rev example_listing) None = Inr ''run-20230615.tsv'' \<and>
   read_csv example_fs (os_path_join AUTOCALIBRATION_DATA_PATH ''run-20230615.tsv'') =
     Some example_rows \<and>
   load_autocalibration_results digit_stamp (map_of example_literals) exact_arith example_fs None =
     Inr example_table \<and>
   load_autocalibration_results digit_stamp (map_of example_literals) exact_arith
     (example_fs\<lparr>listdir := (listdir example_fs)
        (AUTOCALIBRATION_DATA_PATH \<mapsto> rev example_listing)\<rparr>) None = Inr example_table"
proof -
  let ?stamp = "\<lambda>f. projr (name_datetime digit_stamp f)"
  let ?le = "map_of example_literals"
  let ?path = "os_path_join AUTOCALIBRATION_DATA_PATH"
  let ?rev = "example_fs\<lparr>listdir := (listdir example_fs)
      (AUTOCALIBRATION_DATA_PATH \<mapsto> rev example_listing)\<rparr>"
  note files = example_files
  note s = example_stamps
  have ne: "tsv_files example_listing \<noteq> []" using files by simp
  have ok: "\<forall>f \<in> set (tsv_files example_listing). name_datetime digit_stamp f = Inr (?stamp f)"
    using files s by simp
  have inj: "inj_on ?stamp (set (tsv_files example_listing))"
    using files s by simp
  from most_recent_file_is_loaded [OF example_dir ne ok, of ?le exact_arith]
  obtain f where
    f: "select_data_file digit_stamp example_listing None = Inr f"
       "f \<in> set (tsv_files example_listing)"
       "?stamp f = Max (?stamp ` set (tsv_files example_listing))"
    and loaded: "load_autocalibration_results digit_stamp ?le exact_arith example_fs None =
       (case read_csv example_fs (?path f) of
          None \<Rightarrow> Inl (ReadError (?path f))
        | Some rows \<Rightarrow> build_autocal_df ?le exact_arith rows)"
    and perm: "\<forall>listing'. set listing' = set example_listing \<longrightarrow>
       (\<exists>f'. select_data_file digit_stamp listing' None = Inr f' \<and> ?stamp f' = ?stamp f \<and>
          (inj_on ?stamp (set (tsv_files example_listing)) \<longrightarrow>
             f' = f \<and>
             load_autocalibration_results digit_stamp ?le exact_arith
               (example_fs\<lparr>listdir := (listdir example_fs)
                  (AUTOCALIBRATION_DATA_PATH \<mapsto> listing')\<rparr>) None =
             load_autocalibration_results digit_stamp ?le exact_arith example_fs None))"
    by blast
  have "Max (?stamp ` set (tsv_files example_listing)) = 20230615"
    using files s by simp
  with f(2,3) files s have fe: "f = ''run-20230615.tsv''" by auto
  have l: "load_autocalibration_results digit_stamp ?le exact_arith example_fs None =
      Inr example_table"
    using loaded by (simp only: fe example_read option.case example_build)
  have "set (rev example_listing) = set example_listing" by simp
  with perm inj obtain f' where
    f': "select_data_file digit_stamp (rev example_listing) None = Inr f'" "f' = f"
    and l': "load_autocalibration_results digit_stamp ?le exact_arith ?rev None =
      load_autocalibration_results digit_stamp ?le exact_arith example_fs None"
    by blast
  have a: "select_data_file digit_stamp example_listing None = Inr ''run-20230615.tsv''"
    using f(1) fe by simp
  have b: "select_data_file digit_stamp (rev example_listing) None = Inr ''run-20230615.tsv''"
    using f' fe by simp
  have c: "load_autocalibration_results digit_stamp ?le exact_arith ?rev None = Inr example_table"
    using l l' by simp
  show ?thesis
    by (intro conjI example_dir files s a b example_read l c)
qed

section \<open>A request for a file that is not there\<close>

text \<open>
  Claim C3 as stated fails: with a \<^verbatim>\<open>.tsv\<close> file in the directory whose name has no
  hyphen, a request for an absent file ends in the \<^verbatim>\<open>IndexError\<close> of line 49, which
  carries no message about the file or the directory.
\<close>

theorem missing_file_error_counterexample:
  "''x.tsv'' \<notin> set (tsv_files [''notes.tsv'']) \<and>
   load_autocalibration_results digit_stamp (map_of example_literals) exact_arith
     (listing_fs [''notes.tsv'']) (Some ''x.tsv'') = Inl IndexError"
  by (simp add: load_autocalibration_results_def listing_fs_def AUTOCALIBRATION_DATA_PATH_def
      select_data_file_def tsv_files_def endswith_def name_datetime_def bind_e_def getitem_def
      split_once_def)

text \<open>
  Claim C3, amended. A request for a file name that is not among the \<^verbatim>\<open>.tsv\<close> files of
  the data directory always ends in an exception, so no other file is loaded in its place;
  when the name of every \<^verbatim>\<open>.tsv\<close> file in the directory yields a time stamp, the exception
  is the assertion error whose message names the requested file and the search directory.
  A request for a name that is among the \<^verbatim>\<open>.tsv\<close> files never raises that assertion error.
\<close>

theorem missing_file_is_refused:
  assumes dir: "listdir fs AUTOCALIBRATION_DATA_PATH = Some listing"
  shows "(f \<notin> set (tsv_files listing) \<longrightarrow>
            (\<exists>e. load_autocalibration_results td le A fs (Some f) = Inl e \<and>
               ((\<forall>g \<in> set (tsv_files listing). \<exists>t. name_datetime td g = Inr t) \<longrightarrow>
                  e = AssertionError (not_found_message f)))) \<and>
         sublist f (not_found_message f) \<and>
         sublist AUTOCALIBRATION_DATA_PATH (not_found_message f) \<and>
         (f \<in> set (tsv_files listing) \<longrightarrow>
            (\<forall>m. load_autocalibration_results td le A fs (Some f) \<noteq> Inl (AssertionError m)))"
proof -
  have absent: "\<exists>e. load_autocalibration_results td le A fs (Some f) = Inl e \<and>
      ((\<forall>g \<in> set (tsv_files listing). \<exists>t. name_datetime td g = Inr t) \<longrightarrow>
         e = AssertionError (not_found_message f))"
    if nf: "f \<notin> set (tsv_files listing)"
  proof (cases "select_data_file td listing (Some f)")
    case (Inl e)
    have l: "load_autocalibration_results td le A fs (Some f) = Inl e"
      using dir Inl by (rule load_select_error)
    have "e = AssertionError (not_found_message f)"
      if all: "\<forall>g \<in> set (tsv_files listing). \<exists>t. name_datetime td g = Inr t"
    proof -
      have "\<forall>g \<in> set (tsv_files listing).
          name_datetime td g = Inr (projr (name_datetime td g))"
        using all by auto
      from select_named_absent [OF this nf] Inl show ?thesis by simp
    qed
    with l show ?thesis by blast
  next
    case (Inr chosen)
    then have "chosen = f" "chosen \<in> set (tsv_files listing)"
      by (auto dest: select_named_result select_result_listed)
    with nf show ?thesis by simp
  qed
  have present: "load_autocalibration_results td le A fs (Some f) \<noteq> Inl (AssertionError m)"
    if "f \<in> set (tsv_files listing)" for m
    using that load_assertion_from_select [OF dir] select_assertion_only_when_absent by blast
  from absent present message_names_file message_names_directory show ?thesis by blast
qed

theorem missing_file_is_refused_witness:
  "listdir example_fs AUTOCALIBRATION_DATA_PATH = Some example_listing \<and>
   ''run-20240101.tsv'' \<notin> set (tsv_files example_listing) \<and>
   load_autocalibration_results digit_stamp (map_of example_literals) exact_arith example_fs
     (Some ''run-20240101.tsv'') =
     Inl (AssertionError ''Specified file run-20240101.tsv not found in autocalibration_data'') \<and>
   ''run-20230101.tsv'' \<in> set (tsv_files example_listing) \<and>
   load_autocalibration_results digit_stamp (map_of example_literals) exact_arith example_fs
     (Some ''run-20230101.tsv'') \<noteq>
     Inl (AssertionError ''Specified file run-20230101.tsv not found in autocalibration_data'')"
proof -
  have dir: "listdir example_fs AUTOCALIBRATION_DATA_PATH = Some example_listing"
    by (simp add: example_fs_def AUTOCALIBRATION_DATA_PATH_def)
  have files: "tsv_files example_listing =
      [''run-20230101.tsv'', ''run-20230615.tsv'', ''run-20221231.tsv'']"
    by (simp add: example_listing_def tsv_files_def endswith_def)
  have s1: "name_datetime digit_stamp ''run-20230101.tsv'' = Inr 20230101"
    by (simp add: name_datetime_def bind_e_def getitem_def split_once_def digit_stamp_def)
  have s2: "name_datetime digit_stamp ''run-20230615.tsv'' = Inr 20230615"
    by (simp add: name_datetime_def bind_e_def getitem_def split_once_def digit_stamp_def)
  have s3: "name_datetime digit_stamp ''run-20221231.tsv'' = Inr 20221231"
    by (simp add: name_datetime_def bind_e_def getitem_def split_once_def digit_stamp_def)
  have nf: "''run-20240101.tsv'' \<notin> set (tsv_files example_listing)"
    using files by simp
  have all: "\<forall>g \<in> set (tsv_files example_listing). \<exists>t. name_datetime digit_stamp g = Inr t"
    using files s1 s2 s3 by simp
  have pr: "''run-20230101.tsv'' \<in> set (tsv_files example_listing)"
    using files by simp
  have msg: "not_found_message ''run-20240101.tsv'' =
      ''Specified file run-20240101.tsv not found in autocalibration_data''"
    by (simp add: not_found_message_def AUTOCALIBRATION_DATA_PATH_def)
  have a: "load_autocalibration_results digit_stamp (map_of example_literals) exact_arith example_fs
      (Some ''run-20240101.tsv'') = Inl (AssertionError (not_found_message ''run-20240101.tsv''))"
    using missing_file_is_refused [OF dir, of "''run-20240101.tsv''" digit_stamp
        "map_of example_literals" exact_arith] nf all
    by blast
  have b: "load_autocalibration_results digit_stamp (map_of example_literals) exact_arith example_fs
      (Some ''run-20230101.tsv'') \<noteq>
      Inl (AssertionError ''Specified file run-20230101.tsv not found in autocalibration_data'')"
    using missing_file_is_refused [OF dir, of "''run-20230101.tsv''" digit_stamp
        "map_of example_literals" exact_arith] pr
    by blast
  from dir nf a b pr msg show ?thesis by simp
qed

section \<open>File names are parsed before the request is checked\<close>

text \<open>
  Claim C9 as stated fails: a \<^verbatim>\<open>.tsv\<close> name can lack a time stamp without any exception.
  After the hyphen of \<^verbatim>\<open>run-.tsv\<close> comes the empty text, on which \<^verbatim>\<open>pd.to_datetime\<close>
  returns \<^verbatim>\<open>NaT\<close> and raises nothing; a request for a file that is there is then served.
\<close>

theorem name_without_timestamp_counterexample:
  "''run-.tsv'' \<in> set (tsv_files [''run-.tsv'', ''run-20230615.tsv'']) \<and>
   name_datetime stamp_or_NaT ''run-.tsv'' = Inr None \<and>
   load_autocalibration_results stamp_or_NaT (map_of example_literals) exact_arith
     (example_fs_listing [''run-.tsv'', ''run-20230615.tsv'']) (Some ''run-20230615.tsv'') =
     Inr example_table"
proof -
  let ?l = "[''run-.tsv'', ''run-20230615.tsv'']"
  have files: "tsv_files ?l = ?l"
    by (simp add: tsv_files_def endswith_def)
  have s1: "name_datetime stamp_or_NaT ''run-.tsv'' = Inr None"
    by (simp add: name_datetime_def bind_e_def getitem_def split_once_def stamp_or_NaT_def)
  have s2: "name_datetime stamp_or_NaT ''run-20230615.tsv'' = Inr (Some 20230615)"
    by (simp add: name_datetime_def bind_e_def getitem_def split_once_def stamp_or_NaT_def
        digit_stamp_def)
  have sel: "select_data_file stamp_or_NaT ?l (Some ''run-20230615.tsv'') =
      Inr ''run-20230615.tsv''"
    by (simp add: select_data_file_def files s1 s2 bind_e_def)
  have dir: "listdir (example_fs_listing ?l) AUTOCALIBRATION_DATA_PATH = Some ?l"
    by (simp add: example_fs_listing_def AUTOCALIBRATION_DATA_PATH_def)
  have rd: "read_csv (example_fs_listing ?l)
      (os_path_join AUTOCALIBRATION_DATA_PATH ''run-20230615.tsv'') = Some example_rows"
    using example_read by (simp add: example_fs_listing_def)
  have "load_autocalibration_results stamp_or_NaT (map_of example_literals) exact_arith
      (example_fs_listing ?l) (Some ''run-20230615.tsv'') = Inr example_table"
    by (simp add: load_after_listing [OF dir] sel rd bind_e_def example_build)
  with files s1 show ?thesis by simp
qed

text \<open>
  Claim C9, amended. The loader reads a time stamp off the name of every \<^verbatim>\<open>.tsv\<close> file of
  the directory before it looks at the requested name. So whenever reading the time stamp
  off some \<^verbatim>\<open>.tsv\<close> name raises (the index error of a name without hyphen, or an exception
  of \<^verbatim>\<open>pd.to_datetime\<close>), the call ends in the exception raised on such a name, which is
  never the assertion error about a missing file, whatever file was requested, also a file
  that is there. With no file requested and no \<^verbatim>\<open>.tsv\<close> file in the directory, the call
  ends in the error of the maximum of an empty list.
\<close>

theorem name_parsing_precedes_file_check:
  assumes dir: "listdir fs AUTOCALIBRATION_DATA_PATH = Some listing"
  shows "(\<forall>g \<in> set (tsv_files listing). \<forall>e. name_datetime td g = Inl e \<longrightarrow>
            (\<exists>g' \<in> set (tsv_files listing). \<exists>e'.
               name_datetime td g' = Inl e' \<and> is_name_parse_error e' \<and>
               (\<forall>m. e' \<noteq> AssertionError m) \<and>
               load_autocalibration_results td le A fs data_filename = Inl e')) \<and>
         (tsv_files listing = [] \<longrightarrow>
            load_autocalibration_results td le A fs None = Inl ValueError)"
proof -
  have bad: "\<exists>g' \<in> set (tsv_files listing). \<exists>e'.
      name_datetime td g' = Inl e' \<and> is_name_parse_error e' \<and>
      (\<forall>m. e' \<noteq> AssertionError m) \<and>
      load_autocalibration_results td le A fs data_filename = Inl e'"
    if g: "g \<in> set (tsv_files listing)" and e: "name_datetime td g = Inl e" for g e
  proof -
    from comprehension_first_failure [of g "tsv_files listing" "name_datetime td" e, OF g e]
    obtain y e' where
      y: "y \<in> set (tsv_files listing)" "name_datetime td y = Inl e'"
         "comprehension (name_datetime td) (tsv_files listing) = Inl e'"
      by blast
    have p: "is_name_parse_error e'" using y(2) by (rule name_datetime_errors)
    then have na: "\<forall>m. e' \<noteq> AssertionError m" by auto
    have "select_data_file td listing data_filename = Inl e'"
      using y(3) by (simp add: select_data_file_def bind_e_def Let_def)
    with dir have "load_autocalibration_results td le A fs data_filename = Inl e'"
      by (rule load_select_error)
    with y p na show ?thesis by blast
  qed
  have empty: "load_autocalibration_results td le A fs None = Inl ValueError"
    if "tsv_files listing = []"
  proof -
    have "select_data_file td listing None = Inl ValueError"
      using that by (simp add: select_data_file_def bind_e_def Let_def)
    with dir show ?thesis by (rule load_select_error)
  qed
  from bad empty show ?thesis by blast
qed

theorem name_parsing_precedes_file_check_witness:
  "tsv_files [''run-20230101.tsv'', ''notes.tsv''] = [''run-20230101.tsv'', ''notes.tsv''] \<and>
   name_datetime digit_stamp ''run-20230101.tsv'' = Inr 20230101 \<and>
   name_datetime digit_stamp ''notes.tsv'' = Inl IndexError \<and>
   load_autocalibration_results digit_stamp (map_of example_literals) exact_arith
     (listing_fs [''run-20230101.tsv'', ''notes.tsv'']) (Some ''run-20230101.tsv'') =
     Inl IndexError \<and>
   tsv_files [''notes.txt''] = [] \<and>
   load_autocalibration_results digit_stamp (map_of example_literals) exact_arith
     (listing_fs [''notes.txt'']) None = Inl ValueError"
proof -
  let ?l = "[''run-20230101.tsv'', ''notes.tsv'']"
  have dir: "listdir (listing_fs names) AUTOCALIBRATION_DATA_PATH = Some names" for names
    by (simp add: listing_fs_def AUTOCALIBRATION_DATA_PATH_def)
  have files: "tsv_files ?l = ?l"
    by (simp add: tsv_files_def endswith_def)
  have s1: "name_datetime digit_stamp ''run-20230101.tsv'' = Inr 20230101"
    by (simp add: name_datetime_def bind_e_def getitem_def split_once_def digit_stamp_def)
  have s2: "name_datetime digit_stamp ''notes.tsv'' = Inl IndexError"
    by (simp add: name_datetime_def bind_e_def getitem_def split_once_def)
  have none: "tsv_files [''notes.txt''] = []"
    by (simp add: tsv_files_def endswith_def)
  have g: "''notes.tsv'' \<in> set (tsv_files ?l)" using files by simp
  from name_parsing_precedes_file_check [OF dir, of ?l digit_stamp "map_of example_literals"
      exact_arith "Some ''run-20230101.tsv''"] g s2
  obtain g' e' where
    g': "g' \<in> set (tsv_files ?l)" "name_datetime digit_stamp g' = Inl e'"
        "load_autocalibration_results digit_stamp (map_of example_literals) exact_arith
           (listing_fs ?l) (Some ''run-20230101.tsv'') = Inl e'"
    by blast
  from g'(1,2) files s1 s2 have "e' = IndexError" by auto
  with g'(3) have a: "load_autocalibration_results digit_stamp (map_of example_literals) exact_arith
      (listing_fs ?l) (Some ''run-20230101.tsv'') = Inl IndexError"
    by simp
  have b: "load_autocalibration_results digit_stamp (map_of example_literals) exact_arith
      (listing_fs [''notes.txt'']) None = Inl ValueError"
    using name_parsing_precedes_file_check [OF dir, of "[''notes.txt'']" digit_stamp
        "map_of example_literals" exact_arith None] none
    by blast
  from files s1 s2 a none b show ?thesis by simp
qed

section \<open>The derived volume\<close>

lemma comprehension_option_map:
  "comprehension (\<lambda>r. case g r of None \<Rightarrow> Inl (h r) | Some d \<Rightarrow> Inr d) xs = Inr ys \<Longrightarrow>
   map g xs = map Some ys"
  by (induction xs arbitrary: ys) (auto split: sum.splits option.splits)

lemma build_rows:
  assumes "build_autocal_df le A rows = Inr df"
  shows "\<exists>rs. map (\<lambda>r. le (content r)) (filter (\<lambda>r. subtype r = ''print'') rows) = map Some rs \<and>
           rs \<noteq> [] \<and> df = map (derive_volume A) rs"
proof -
  let ?f = "\<lambda>r. case le (content r) of None \<Rightarrow> Inl (LiteralError (content r)) | Some d \<Rightarrow> Inr d"
  let ?rs = "filter (\<lambda>r. subtype r = ''print'') rows"
  from assms obtain rs where
    c: "comprehension ?f ?rs = Inr rs" and ne: "rs \<noteq> []" and df: "df = map (derive_volume A) rs"
    by (auto simp: build_autocal_df_def bind_e_def split: sum.splits if_splits)
  from c have "map (\<lambda>r. le (content r)) ?rs = map Some rs"
    by (rule comprehension_option_map)
  with ne df show ?thesis by blast
qed

lemma load_rows:
  assumes "load_autocalibration_results td le A fs data_filename = Inr df"
  shows "\<exists>chosen rows. read_csv fs (os_path_join AUTOCALIBRATION_DATA_PATH chosen) = Some rows \<and>
           build_autocal_df le A rows = Inr df"
  using assms
  by (auto simp: load_autocalibration_results_def bind_e_def Let_def
      split: sum.splits option.splits)

lemma volume_formula:
  "single_release_vol (derive_volume A r) =
     series_mul A (series_div A \<bar>release_weight r\<bar> (n_release r)) 1000"
  by (simp add: derive_volume_def Let_def printed.defs)

lemma volume_fields:
  "poke (derive_volume A r) = poke r"
  "release_duration (derive_volume A r) = release_duration r"
  "release_weight (derive_volume A r) = \<bar>release_weight r\<bar>"
  "n_release (derive_volume A r) = n_release r"
  by (simp_all add: derive_volume_def Let_def printed.defs)

lemma volume_sign:
  "derive_volume A (r\<lparr>release_weight := - release_weight r\<rparr>) = derive_volume A r"
  by (simp add: derive_volume_def Let_def printed.defs)

text \<open>
  Claim C1. The table the loader returns has one row for each \<^verbatim>\<open>print\<close> line of the file,
  in order. A row keeps the poke, the duration and the number of releases of its line and
  the absolute value of the weight, and its \<^verbatim>\<open>single_release_vol\<close> is that absolute value
  divided by \<^verbatim>\<open>n_release\<close> and then multiplied by 1000, both in float64 arithmetic. A line
  with the weight negated gives the same row.
\<close>

theorem single_release_vol_derived:
  assumes "load_autocalibration_results td le A fs data_filename = Inr df"
  shows "\<exists>chosen rows rs.
           read_csv fs (os_path_join AUTOCALIBRATION_DATA_PATH chosen) = Some rows \<and>
           map (\<lambda>r. le (content r)) (filter (\<lambda>r. subtype r = ''print'') rows) = map Some rs \<and>
           length df = length rs \<and>
           (\<forall>k < length rs.
              single_release_vol (df ! k) =
                series_mul A (series_div A \<bar>release_weight (rs ! k)\<bar> (n_release (rs ! k))) 1000 \<and>
              poke (df ! k) = poke (rs ! k) \<and>
              release_duration (df ! k) = release_duration (rs ! k) \<and>
              release_weight (df ! k) = \<bar>release_weight (rs ! k)\<bar> \<and>
              n_release (df ! k) = n_release (rs ! k) \<and>
              derive_volume A ((rs ! k)\<lparr>release_weight := - release_weight (rs ! k)\<rparr>) = df ! k)"
proof -
  from load_rows [OF assms] obtain chosen rows where
    r: "read_csv fs (os_path_join AUTOCALIBRATION_DATA_PATH chosen) = Some rows"
    and b: "build_autocal_df le A rows = Inr df"
    by blast
  from build_rows [OF b] obtain rs where
    m: "map (\<lambda>r. le (content r)) (filter (\<lambda>r. subtype r = ''print'') rows) = map Some rs"
    and df: "df = map (derive_volume A) rs"
    by blast
  have "single_release_vol (df ! k) =
        series_mul A (series_div A \<bar>release_weight (rs ! k)\<bar> (n_release (rs ! k))) 1000 \<and>
      poke (df ! k) = poke (rs ! k) \<and>
      release_duration (df ! k) = release_duration (rs ! k) \<and>
      release_weight (df ! k) = \<bar>release_weight (rs ! k)\<bar> \<and>
      n_release (df ! k) = n_release (rs ! k) \<and>
      derive_volume A ((rs ! k)\<lparr>release_weight := - release_weight (rs ! k)\<rparr>) = df ! k"
    if "k < length rs" for k
  proof -
    have "df ! k = derive_volume A (rs ! k)" using df that by simp
    then show ?thesis
      by (simp only: volume_formula volume_fields volume_sign simp_thms)
  qed
  then have "\<forall>k < length rs.
      single_release_vol (df ! k) =
        series_mul A (series_div A \<bar>release_weight (rs ! k)\<bar> (n_release (rs ! k))) 1000 \<and>
      poke (df ! k) = poke (rs ! k) \<and>
      release_duration (df ! k) = release_duration (rs ! k) \<and>
      release_weight (df ! k) = \<bar>release_weight (rs ! k)\<bar> \<and>
      n_release (df ! k) = n_release (rs ! k) \<and>
      derive_volume A ((rs ! k)\<lparr>release_weight := - release_weight (rs ! k)\<rparr>) = df ! k"
    by blast
  moreover have "length df = length rs" using df by simp
  ultimately show ?thesis using r m by blast
qed

lemma example_load:
  "load_autocalibration_results digit_stamp (map_of example_literals) exact_arith example_fs None =
     Inr example_table"
proof -
  have sel: "select_data_file digit_stamp example_listing None = Inr ''run-20230615.tsv''"
    by (simp add: example_listing_def select_data_file_def tsv_files_def endswith_def
        name_datetime_def bind_e_def getitem_def split_once_def digit_stamp_def)
  show ?thesis
    by (simp add: load_after_listing [OF example_dir] sel example_read example_build bind_e_def)
qed

theorem single_release_vol_derived_witness:
  "\<exists>df. load_autocalibration_results digit_stamp (map_of example_literals) exact_arith example_fs
            None = Inr df \<and>
     map_of example_literals ''a1'' =
       Some \<lparr>poke = ''A'', release_duration = 40, release_weight = - 0.5, n_release = 100\<rparr> \<and>
     single_release_vol (df ! 0) = Fin 5 \<and> release_weight (df ! 0) = 0.5 \<and>
     map_of example_literals ''b1'' =
       Some \<lparr>poke = ''B'', release_duration = 32.382, release_weight = 0.3, n_release = 100\<rparr> \<and>
     single_release_vol (df ! 1) = Fin 3 \<and>
     map_of example_literals ''a2'' =
       Some \<lparr>poke = ''A'', release_duration = 70, release_weight = 1, n_release = 100\<rparr> \<and>
     single_release_vol (df ! 2) = Fin 10"
proof -
  let ?df = "example_table"
  let ?a1 = "\<lparr>poke = ''A'', release_duration = 40, release_weight = - 0.5, n_release = 100\<rparr>"
  let ?b1 = "\<lparr>poke = ''B'', release_duration = 32.382, release_weight = 0.3, n_release = 100\<rparr>"
  let ?a2 = "\<lparr>poke = ''A'', release_duration = 70, release_weight = 1, n_release = 100\<rparr>"
  let ?b2 = "\<lparr>poke = ''B'', release_duration = 44.76, release_weight = 0.6, n_release = 100\<rparr>"
  note l = example_load
  have len4: "length ?df = 4" by (simp add: example_table_def)
  from single_release_vol_derived [OF l] obtain chosen rows rs where
    r: "read_csv example_fs (os_path_join AUTOCALIBRATION_DATA_PATH chosen) = Some rows"
    and m: "map (\<lambda>r. map_of example_literals (content r))
              (filter (\<lambda>r. subtype r = ''print'') rows) = map Some rs"
    and len: "length ?df = length rs"
    and v: "\<forall>k < length rs.
         single_release_vol (?df ! k) =
           series_mul exact_arith
             (series_div exact_arith \<bar>release_weight (rs ! k)\<bar> (n_release (rs ! k))) 1000 \<and>
         release_weight (?df ! k) = \<bar>release_weight (rs ! k)\<bar>"
    by blast
  from r have "rows = example_rows \<or> rows = []"
    by (auto simp: example_fs_def split: if_splits)
  moreover have "rows \<noteq> []" using m len len4 by auto
  ultimately have rows: "rows = example_rows" by simp
  have lits: "map_of example_literals ''a1'' = Some ?a1" "map_of example_literals ''b1'' = Some ?b1"
    "map_of example_literals ''a2'' = Some ?a2" "map_of example_literals ''b2'' = Some ?b2"
    by (simp_all add: example_literals_def)
  have "map Some rs = map Some [?a1, ?b1, ?a2, ?b2]"
    using m rows lits by (simp add: example_rows_def)
  then have rs: "rs = [?a1, ?b1, ?a2, ?b2]"
    by (simp only: inj_map_eq_map [OF inj_Some])
  have v0: "single_release_vol (?df ! 0) = Fin 5" "release_weight (?df ! 0) = 0.5"
    using v rs by (simp_all add: nth_Cons' exact_arith_def exact_div_def)
  have v1: "single_release_vol (?df ! 1) = Fin 3"
    using v rs by (simp add: nth_Cons' exact_arith_def exact_div_def)
  have v2: "single_release_vol (?df ! 2) = Fin 10"
    using v rs by (simp add: nth_Cons' exact_arith_def exact_div_def)
  show ?thesis
    by (rule exI [of _ ?df]) (intro conjI l lits(1) lits(2) lits(3) v0 v1 v2)
qed

section \<open>Facts about dictionaries and frames\<close>

lemma set_unique_from: "set (unique_from seen xs) = set xs - set seen"
  by (induction xs arbitrary: seen) auto

lemma distinct_unique_from: "distinct (unique_from seen xs)"
  by (induction xs arbitrary: seen) (auto simp: set_unique_from)

lemma set_unique: "set (unique xs) = set xs"
  by (simp add: unique_def set_unique_from)

lemma distinct_unique: "distinct (unique xs)"
  by (simp add: unique_def distinct_unique_from)

lemma unique_from_seen: "set xs \<subseteq> set seen \<Longrightarrow> unique_from seen xs = []"
  by (induction xs) auto

lemma unique_two_labels:
  assumes "ps \<noteq> []" and "a \<noteq> b"
  shows "unique (concat (map (\<lambda>p. [a, b]) ps)) = [a, b]"
proof -
  from assms(1) obtain p ps' where ps: "ps = p # ps'" by (cases ps) auto
  have "set (concat (map (\<lambda>p. [a, b]) ps')) \<subseteq> set [b, a]" by auto
  then have "unique_from [b, a] (concat (map (\<lambda>p. [a, b]) ps')) = []"
    by (rule unique_from_seen)
  with assms(2) ps show ?thesis by (simp add: unique_def)
qed

lemma dict_set_new: "k \<notin> fst ` set d \<Longrightarrow> dict_set d k v = d @ [(k, v)]"
  by (simp add: dict_set_def)

lemma map_of_table: "map_of (map (\<lambda>p. (p, e p)) ps) c = (if c \<in> set ps then Some (e c) else None)"
  by (induction ps) auto

text \<open>The frame of a dictionary that gives every poke its slope and intercept.\<close>

lemma frame_of_fits:
  fixes entry :: "'p \<Rightarrow> f64 \<times> f64" and ps :: "'p list" and A :: float64_arith
  defines "d \<equiv> map (\<lambda>p. (p, fit_entry A (fst (entry p)) (snd (entry p)))) ps"
  shows "row_labels (transpose_frame (DataFrame d)) = ps"
    and "col_labels (transpose_frame (DataFrame d)) = (if ps = [] then [] else [''s'', ''i''])"
    and "p \<in> set ps \<Longrightarrow>
           cell (transpose_frame (DataFrame d)) p ''s'' = py_round A (fst (entry p)) 2"
    and "p \<in> set ps \<Longrightarrow>
           cell (transpose_frame (DataFrame d)) p ''i'' = py_round A (snd (entry p)) 2"
proof -
  have labels: "concat (map (\<lambda>(c, inner). map fst inner) d) = concat (map (\<lambda>p. [''s'', ''i'']) ps)"
    by (simp add: d_def fit_entry_def comp_def)
  show "row_labels (transpose_frame (DataFrame d)) = ps"
    by (simp add: transpose_frame_def DataFrame_def d_def comp_def)
  show "col_labels (transpose_frame (DataFrame d)) = (if ps = [] then [] else [''s'', ''i''])"
  proof (cases "ps = []")
    case True
    then show ?thesis by (simp add: transpose_frame_def DataFrame_def d_def unique_def)
  next
    case False
    then have "unique (concat (map (\<lambda>p. [''s'', ''i'']) ps)) = [''s'', ''i'']"
      by (intro unique_two_labels) simp_all
    with False labels show ?thesis by (simp add: transpose_frame_def DataFrame_def)
  qed
  show "cell (transpose_frame (DataFrame d)) p ''s'' = py_round A (fst (entry p)) 2"
    if "p \<in> set ps"
    using that by (simp add: transpose_frame_def DataFrame_def d_def map_of_table fit_entry_def)
  show "cell (transpose_frame (DataFrame d)) p ''i'' = py_round A (snd (entry p)) 2"
    if "p \<in> set ps"
    using that by (simp add: transpose_frame_def DataFrame_def d_def map_of_table fit_entry_def)
qed

text \<open>Transposing the frame back and taking its dictionary gives the dictionary it was
  built from.\<close>

lemma to_dict_of_fits:
  fixes entry :: "'p \<Rightarrow> f64 \<times> f64" and ps :: "'p list" and A :: float64_arith
  defines "d \<equiv> map (\<lambda>p. (p, fit_entry A (fst (entry p)) (snd (entry p)))) ps"
  shows "to_dict (transpose_frame (transpose_frame (DataFrame d))) = d"
proof (cases "ps = []")
  case True
  then show ?thesis by (simp add: to_dict_def transpose_frame_def DataFrame_def d_def)
next
  case False
  have labels: "concat (map (\<lambda>(c, inner). map fst inner) d) = concat (map (\<lambda>p. [''s'', ''i'']) ps)"
    by (simp add: d_def fit_entry_def comp_def)
  have rows: "row_labels (DataFrame d) = [''s'', ''i'']"
    using False labels unique_two_labels [of ps "''s''" "''i''"] by (simp add: DataFrame_def)
  have cols: "col_labels (DataFrame d) = ps"
    by (simp add: DataFrame_def d_def comp_def)
  have cells: "cell (DataFrame d) r c =
      (case map_of (fit_entry A (fst (entry c)) (snd (entry c))) r of None \<Rightarrow> NaN | Some v \<Rightarrow> v)"
    if "c \<in> set ps" for r c
    using that by (simp add: DataFrame_def d_def map_of_table)
  have "to_dict (transpose_frame (transpose_frame (DataFrame d))) =
      map (\<lambda>c. (c, [(''s'', cell (DataFrame d) ''s'' c), (''i'', cell (DataFrame d) ''i'' c)])) ps"
    using rows cols by (simp add: to_dict_def transpose_frame_def)
  also have "\<dots> = map (\<lambda>c. (c, [(''s'', py_round A (fst (entry c)) 2),
                                 (''i'', py_round A (snd (entry c)) 2)])) ps"
    by (rule map_cong) (simp_all add: cells fit_entry_def)
  also have "\<dots> = d"
    by (simp add: d_def fit_entry_def)
  finally show ?thesis .
qed

section \<open>Facts about the two fitting loops\<close>

lemma linear_regression_loop_result:
  assumes "distinct ps" and "set ps \<inter> fst ` set d = {}"
  shows "linear_regression_loop pf A df ps d =
           (if \<forall>p \<in> set ps. fit_poke pf df p \<noteq> None
            then Inr (d @ map (\<lambda>p. (p, fit_entry A (fst (the (fit_poke pf df p)))
                                                   (snd (the (fit_poke pf df p))))) ps)
            else Inl PolyfitError)"
  using assms
proof (induction ps arbitrary: d)
  case Nil
  then show ?case by simp
next
  case (Cons p ps)
  show ?case
  proof (cases "fit_poke pf df p")
    case None
    then show ?thesis by simp
  next
    case (Some fit)
    obtain slope intercept where fit: "fit = (slope, intercept)" by (cases fit)
    let ?d = "d @ [(p, fit_entry A slope intercept)]"
    have new: "p \<notin> fst ` set d" using Cons.prems(2) by auto
    have dis: "distinct ps" and disj: "set ps \<inter> fst ` set ?d = {}"
      using Cons.prems by auto
    have "linear_regression_loop pf A df (p # ps) d = linear_regression_loop pf A df ps ?d"
      using Some fit new by (simp add: dict_set_new)
    also note Cons.IH [OF dis disj]
    finally show ?thesis using Some fit by simp
  qed
qed

lemma mixed_effects_loop_result:
  assumes "distinct ps" and "set ps \<inter> fst ` set d = {}"
  shows "mixed_effects_loop A mdf ps d =
           (if \<forall>p \<in> set ps. random_effects mdf p \<noteq> None
            then Inr (d @ map (\<lambda>p. (p, fit_entry A
                        (float_add A (fe_single_release_vol mdf) (snd (the (random_effects mdf p))))
                        (float_add A (fe_Intercept mdf) (fst (the (random_effects mdf p)))))) ps)
            else Inl KeyError)"
  using assms
proof (induction ps arbitrary: d)
  case Nil
  then show ?case by simp
next
  case (Cons p ps)
  show ?case
  proof (cases "random_effects mdf p")
    case None
    then show ?thesis by simp
  next
    case (Some re)
    obtain re_Group re_slope where re: "re = (re_Group, re_slope)" by (cases re)
    let ?d = "d @ [(p, fit_entry A (float_add A (fe_single_release_vol mdf) re_slope)
                                   (float_add A (fe_Intercept mdf) re_Group))]"
    have new: "p \<notin> fst ` set d" using Cons.prems(2) by auto
    have dis: "distinct ps" and disj: "set ps \<inter> fst ` set ?d = {}"
      using Cons.prems by auto
    have "mixed_effects_loop A mdf (p # ps) d = mixed_effects_loop A mdf ps ?d"
      using Some re new by (simp add: dict_set_new Let_def)
    also note Cons.IH [OF dis disj]
    finally show ?thesis using Some re by simp
  qed
qed

lemma linear_regression_poke2fit_result:
  "linear_regression_poke2fit pf A df =
     (if \<forall>p \<in> poke ` set df. fit_poke pf df p \<noteq> None
      then Inr (map (\<lambda>p. (p, fit_entry A (fst (the (fit_poke pf df p)))
                                         (snd (the (fit_poke pf df p)))))
                  (unique (map poke df)))
      else Inl PolyfitError)"
  using linear_regression_loop_result [of "unique (map poke df)" "[]" pf A df]
  by (simp add: linear_regression_poke2fit_def distinct_unique set_unique)

lemma mixed_effects_poke2fit_result:
  "fit df = Some mdf \<Longrightarrow>
   mixed_effects_poke2fit fit A df =
     (if \<forall>p \<in> poke ` set df. random_effects mdf p \<noteq> None
      then Inr (map (\<lambda>p. (p, fit_entry A
                  (float_add A (fe_single_release_vol mdf) (snd (the (random_effects mdf p))))
                  (float_add A (fe_Intercept mdf) (fst (the (random_effects mdf p))))))
                  (unique (map poke df)))
      else Inl KeyError)"
  using mixed_effects_loop_result [of "unique (map poke df)" "[]" A mdf]
  by (simp add: mixed_effects_poke2fit_def distinct_unique set_unique)

text \<open>The dictionary behind a frame a fitter returned.\<close>

lemma linear_regression_frame:
  assumes "get_linear_regression_parameters pf A df = Inr lr"
  shows "(\<forall>p \<in> poke ` set df. fit_poke pf df p \<noteq> None) \<and>
         linear_regression_poke2fit pf A df =
           Inr (map (\<lambda>p. (p, fit_entry A (fst (the (fit_poke pf df p)))
                                         (snd (the (fit_poke pf df p)))))
                  (unique (map poke df))) \<and>
         lr = transpose_frame (DataFrame
                (map (\<lambda>p. (p, fit_entry A (fst (the (fit_poke pf df p)))
                                         (snd (the (fit_poke pf df p)))))
                  (unique (map poke df))))"
proof -
  from assms obtain d where d: "linear_regression_poke2fit pf A df = Inr d"
    and lr: "lr = transpose_frame (DataFrame d)"
    by (auto simp: get_linear_regression_parameters_def bind_e_def split: sum.splits)
  from d have all: "\<forall>p \<in> poke ` set df. fit_poke pf df p \<noteq> None"
    by (auto simp: linear_regression_poke2fit_result split: if_splits)
  with d have "d = map (\<lambda>p. (p, fit_entry A (fst (the (fit_poke pf df p)))
                                         (snd (the (fit_poke pf df p)))))
                  (unique (map poke df))"
    by (simp add: linear_regression_poke2fit_result)
  with d lr all show ?thesis by simp
qed

lemma mixed_effects_frame:
  assumes "get_mixed_effects_regression_parameters fit A df = Inr me"
  shows "\<exists>mdf. fit df = Some mdf \<and>
         (\<forall>p \<in> poke ` set df. random_effects mdf p \<noteq> None) \<and>
         mixed_effects_poke2fit fit A df =
           Inr (map (\<lambda>p. (p, fit_entry A
                  (float_add A (fe_single_release_vol mdf) (snd (the (random_effects mdf p))))
                  (float_add A (fe_Intercept mdf) (fst (the (random_effects mdf p))))))
                  (unique (map poke df))) \<and>
         me = transpose_frame (DataFrame
                (map (\<lambda>p. (p, fit_entry A
                  (float_add A (fe_single_release_vol mdf) (snd (the (random_effects mdf p))))
                  (float_add A (fe_Intercept mdf) (fst (the (random_effects mdf p))))))
                  (unique (map poke df))))"
proof -
  from assms obtain d where d: "mixed_effects_poke2fit fit A df = Inr d"
    and me: "me = transpose_frame (DataFrame d)"
    by (auto simp: get_mixed_effects_regression_parameters_def bind_e_def split: sum.splits)
  from d obtain mdf where mdf: "fit df = Some mdf"
    by (auto simp: mixed_effects_poke2fit_def split: option.splits)
  from d have all: "\<forall>p \<in> poke ` set df. random_effects mdf p \<noteq> None"
    by (auto simp: mixed_effects_poke2fit_result [of fit df mdf A, OF mdf] split: if_splits)
  with d have "d = map (\<lambda>p. (p, fit_entry A
                  (float_add A (fe_single_release_vol mdf) (snd (the (random_effects mdf p))))
                  (float_add A (fe_Intercept mdf) (fst (the (random_effects mdf p))))))
                  (unique (map poke df))"
    by (simp add: mixed_effects_poke2fit_result [of fit df mdf A, OF mdf])
  with d me mdf all show ?thesis by simp
qed

section \<open>Every fitted value is rounded to two decimals\<close>

lemma linear_regression_cells:
  assumes "get_linear_regression_parameters pf A df = Inr lr" and "p \<in> poke ` set df"
  shows "\<exists>slope intercept. fit_poke pf df p = Some (slope, intercept) \<and>
           cell lr p ''s'' = py_round A slope 2 \<and>
           cell lr p ''i'' = py_round A intercept 2"
proof -
  let ?entry = "\<lambda>p. the (fit_poke pf df p)"
  let ?ps = "unique (map poke df)"
  from linear_regression_frame [OF assms(1)]
  have all: "\<forall>p \<in> poke ` set df. fit_poke pf df p \<noteq> None"
    and lr: "lr = transpose_frame (DataFrame
        (map (\<lambda>p. (p, fit_entry A (fst (?entry p)) (snd (?entry p)))) ?ps))"
    by simp_all
  from all assms(2) obtain slope intercept where f: "fit_poke pf df p = Some (slope, intercept)"
    by fastforce
  have mem: "p \<in> set ?ps" using assms(2) by (simp add: set_unique)
  have "cell lr p ''s'' = py_round A (fst (?entry p)) 2"
    unfolding lr using mem by (rule frame_of_fits(3))
  moreover have "cell lr p ''i'' = py_round A (snd (?entry p)) 2"
    unfolding lr using mem by (rule frame_of_fits(4))
  ultimately show ?thesis using f by simp
qed

lemma mixed_effects_cells:
  assumes "get_mixed_effects_regression_parameters fit A df = Inr me"
  shows "\<exists>mdf. fit df = Some mdf \<and>
           (\<forall>p \<in> poke ` set df. \<exists>re_Group re_slope.
              random_effects mdf p = Some (re_Group, re_slope) \<and>
              cell me p ''s'' = py_round A (float_add A (fe_single_release_vol mdf) re_slope) 2 \<and>
              cell me p ''i'' = py_round A (float_add A (fe_Intercept mdf) re_Group) 2)"
proof -
  from mixed_effects_frame [OF assms] obtain mdf where mdf: "fit df = Some mdf"
    and all: "\<forall>p \<in> poke ` set df. random_effects mdf p \<noteq> None"
    and me0: "me = transpose_frame (DataFrame
                (map (\<lambda>p. (p, fit_entry A
                  (float_add A (fe_single_release_vol mdf) (snd (the (random_effects mdf p))))
                  (float_add A (fe_Intercept mdf) (fst (the (random_effects mdf p))))))
                  (unique (map poke df))))"
    by blast
  let ?entry = "\<lambda>p. (float_add A (fe_single_release_vol mdf) (snd (the (random_effects mdf p))),
                      float_add A (fe_Intercept mdf) (fst (the (random_effects mdf p))))"
  let ?ps = "unique (map poke df)"
  have me: "me = transpose_frame (DataFrame
      (map (\<lambda>p. (p, fit_entry A (fst (?entry p)) (snd (?entry p)))) ?ps))"
    using me0 by simp
  have "\<exists>re_Group re_slope.
      random_effects mdf p = Some (re_Group, re_slope) \<and>
      cell me p ''s'' = py_round A (float_add A (fe_single_release_vol mdf) re_slope) 2 \<and>
      cell me p ''i'' = py_round A (float_add A (fe_Intercept mdf) re_Group) 2"
    if p: "p \<in> poke ` set df" for p
  proof -
    from all p obtain re_Group re_slope where
      r: "random_effects mdf p = Some (re_Group, re_slope)"
      by fastforce
    have mem: "p \<in> set ?ps" using p by (simp add: set_unique)
    have "cell me p ''s'' = py_round A (fst (?entry p)) 2"
      unfolding me using mem by (rule frame_of_fits(3))
    moreover have "cell me p ''i'' = py_round A (snd (?entry p)) 2"
      unfolding me using mem by (rule frame_of_fits(4))
    ultimately show ?thesis using r by simp
  qed
  with mdf show ?thesis by blast
qed

lemma fitter_rows:
  "get_linear_regression_parameters pf A df = Inr lr \<Longrightarrow> row_labels lr = unique (map poke df)"
  "get_mixed_effects_regression_parameters fit A df = Inr me \<Longrightarrow>
     row_labels me = unique (map poke df)"
proof -
  show "row_labels lr = unique (map poke df)"
    if "get_linear_regression_parameters pf A df = Inr lr"
    using linear_regression_frame [OF that]
    by (simp add: transpose_frame_def DataFrame_def comp_def)
  show "row_labels me = unique (map poke df)"
    if "get_mixed_effects_regression_parameters fit A df = Inr me"
    using mixed_effects_frame [OF that]
    by (auto simp: transpose_frame_def DataFrame_def comp_def)
qed

text \<open>
  Claim C5. In the frame either fitter returns there is one row for each poke of the
  table, and the slope and the intercept in it are results of \<^verbatim>\<open>round(x, 2)\<close>: for the
  independent fitter of the slope and the intercept that \<^verbatim>\<open>np.polyfit\<close> gave for the
  events of that poke, for the mixed effects fitter of the sum of the fixed effect and the
  random effect of that poke (slope with slope, intercept with \<^verbatim>\<open>Group\<close>), the sum being
  taken before the rounding.
\<close>

theorem fitted_values_are_rounded:
  "(get_linear_regression_parameters pf A df = Inr lr \<longrightarrow>
      row_labels lr = unique (map poke df) \<and>
      (\<forall>p \<in> poke ` set df. \<exists>slope intercept.
         fit_poke pf df p = Some (slope, intercept) \<and>
         cell lr p ''s'' = py_round A slope 2 \<and>
         cell lr p ''i'' = py_round A intercept 2)) \<and>
   (get_mixed_effects_regression_parameters fit A df = Inr me \<longrightarrow>
      row_labels me = unique (map poke df) \<and>
      (\<exists>mdf. fit df = Some mdf \<and>
         (\<forall>p \<in> poke ` set df. \<exists>re_Group re_slope.
            random_effects mdf p = Some (re_Group, re_slope) \<and>
            cell me p ''s'' = py_round A (float_add A (fe_single_release_vol mdf) re_slope) 2 \<and>
            cell me p ''i'' = py_round A (float_add A (fe_Intercept mdf) re_Group) 2)))"
proof (intro conjI impI)
  assume l: "get_linear_regression_parameters pf A df = Inr lr"
  then show "row_labels lr = unique (map poke df)" by (rule fitter_rows(1))
  show "\<forall>p \<in> poke ` set df. \<exists>slope intercept.
         fit_poke pf df p = Some (slope, intercept) \<and>
         cell lr p ''s'' = py_round A slope 2 \<and>
         cell lr p ''i'' = py_round A intercept 2"
    using linear_regression_cells [OF l] by blast
next
  assume m: "get_mixed_effects_regression_parameters fit A df = Inr me"
  then show "row_labels me = unique (map poke df)" by (rule fitter_rows(2))
  show "\<exists>mdf. fit df = Some mdf \<and>
         (\<forall>p \<in> poke ` set df. \<exists>re_Group re_slope.
            random_effects mdf p = Some (re_Group, re_slope) \<and>
            cell me p ''s'' = py_round A (float_add A (fe_single_release_vol mdf) re_slope) 2 \<and>
            cell me p ''i'' = py_round A (float_add A (fe_Intercept mdf) re_Group) 2)"
    using m by (rule mixed_effects_cells)
qed

section \<open>The example table\<close>

lemma example_pokes: "unique (map poke example_table) = [''A'', ''B'']"
  by (simp add: example_table_def unique_def)

lemma example_poke_set: "poke ` set example_table = {''A'', ''B''}"
  by (auto simp: example_table_def)

lemma example_fit_A: "fit_poke closed_form_polyfit example_table ''A'' = Some (Fin 6, Fin 10)"
  by (simp add: fit_poke_def poke_df_def example_table_def closed_form_polyfit_def Let_def)

lemma example_fit_B:
  "fit_poke closed_form_polyfit example_table ''B'' = Some (Fin 4.126, Fin 20.004)"
  by (simp add: fit_poke_def poke_df_def example_table_def closed_form_polyfit_def Let_def)

lemma example_rounding:
  "py_round exact_arith (Fin 6) 2 = Fin 6"
  "py_round exact_arith (Fin 10) 2 = Fin 10"
  "py_round exact_arith (Fin 4.126) 2 = Fin 4.13"
  "py_round exact_arith (Fin 20.004) 2 = Fin 20"
  "py_round exact_arith (float_add exact_arith (Fin 5) (Fin 0.126)) 2 = Fin 5.13"
  "py_round exact_arith (float_add exact_arith (Fin 15) (Fin 0.004)) 2 = Fin 15"
  by (simp_all add: exact_arith_def rint_def Let_def)

lemma example_lr_dict:
  "linear_regression_poke2fit closed_form_polyfit exact_arith example_table =
     Inr [(''A'', [(''s'', Fin 6), (''i'', Fin 10)]), (''B'', [(''s'', Fin 4.13), (''i'', Fin 20)])]"
proof -
  let ?entry = "\<lambda>p. the (fit_poke closed_form_polyfit example_table p)"
  have "\<forall>p \<in> poke ` set example_table. fit_poke closed_form_polyfit example_table p \<noteq> None"
  proof
    fix p assume "p \<in> poke ` set example_table"
    then have "p = ''A'' \<or> p = ''B''" by (simp add: example_poke_set)
    then show "fit_poke closed_form_polyfit example_table p \<noteq> None"
      by (metis example_fit_A example_fit_B option.distinct(1))
  qed
  then have "linear_regression_poke2fit closed_form_polyfit exact_arith example_table =
      Inr (map (\<lambda>p. (p, fit_entry exact_arith (fst (?entry p)) (snd (?entry p))))
             (unique (map poke example_table)))"
    unfolding linear_regression_poke2fit_result by (rule if_P)
  also have "\<dots> = Inr [(''A'', fit_entry exact_arith (Fin 6) (Fin 10)),
                        (''B'', fit_entry exact_arith (Fin 4.126) (Fin 20.004))]"
    by (simp only: example_pokes list.map example_fit_A example_fit_B option.sel fst_conv
        snd_conv)
  also have "\<dots> = Inr [(''A'', [(''s'', Fin 6), (''i'', Fin 10)]),
                        (''B'', [(''s'', Fin 4.13), (''i'', Fin 20)])]"
    by (simp only: fit_entry_def example_rounding)
  finally show ?thesis .
qed

lemma example_random_effects:
  "p \<in> {''A'', ''B''} \<Longrightarrow>
   random_effects (the (example_mixedlm example_table)) p = Some (Fin 0.004, Fin 0.126)"
  by (auto simp: example_mixedlm_def example_table_def)

lemma example_me_dict:
  "mixed_effects_poke2fit example_mixedlm exact_arith example_table =
     Inr [(''A'', [(''s'', Fin 5.13), (''i'', Fin 15)]), (''B'', [(''s'', Fin 5.13), (''i'', Fin 15)])]"
proof -
  obtain mdf where mdf: "example_mixedlm example_table = Some mdf"
    by (simp add: example_mixedlm_def)
  have fe: "fe_single_release_vol mdf = Fin 5" "fe_Intercept mdf = Fin 15"
    using mdf by (auto simp: example_mixedlm_def)
  have re: "random_effects mdf ''A'' = Some (Fin 0.004, Fin 0.126)"
    "random_effects mdf ''B'' = Some (Fin 0.004, Fin 0.126)"
    using example_random_effects [of "''A''"] example_random_effects [of "''B''"] mdf by simp_all
  have "\<forall>p \<in> poke ` set example_table. random_effects mdf p \<noteq> None"
  proof
    fix p assume "p \<in> poke ` set example_table"
    then have "p = ''A'' \<or> p = ''B''" by (simp add: example_poke_set)
    then show "random_effects mdf p \<noteq> None"
      by (metis re option.distinct(1))
  qed
  then have "mixed_effects_poke2fit example_mixedlm exact_arith example_table =
      Inr (map (\<lambda>p. (p, fit_entry exact_arith
                  (float_add exact_arith (fe_single_release_vol mdf)
                     (snd (the (random_effects mdf p))))
                  (float_add exact_arith (fe_Intercept mdf) (fst (the (random_effects mdf p))))))
             (unique (map poke example_table)))"
    unfolding mixed_effects_poke2fit_result [of example_mixedlm example_table mdf exact_arith,
        OF mdf]
    by (rule if_P)
  also have "\<dots> = Inr [(''A'', fit_entry exact_arith (float_add exact_arith (Fin 5) (Fin 0.126))
                                  (float_add exact_arith (Fin 15) (Fin 0.004))),
                        (''B'', fit_entry exact_arith (float_add exact_arith (Fin 5) (Fin 0.126))
                                  (float_add exact_arith (Fin 15) (Fin 0.004)))]"
    by (simp only: example_pokes list.map re fe option.sel fst_conv snd_conv)
  also have "\<dots> = Inr [(''A'', [(''s'', Fin 5.13), (''i'', Fin 15)]),
                        (''B'', [(''s'', Fin 5.13), (''i'', Fin 15)])]"
    by (simp only: fit_entry_def example_rounding)
  finally show ?thesis .
qed

theorem fitted_values_are_rounded_witness:
  "\<exists>lr me.
     get_linear_regression_parameters closed_form_polyfit exact_arith example_table = Inr lr \<and>
     ''B'' \<in> poke ` set example_table \<and>
     fit_poke closed_form_polyfit example_table ''B'' = Some (Fin 4.126, Fin 20.004) \<and>
     cell lr ''B'' ''s'' = Fin 4.13 \<and> cell lr ''B'' ''i'' = Fin 20 \<and>
     get_mixed_effects_regression_parameters example_mixedlm exact_arith example_table = Inr me \<and>
     cell me ''A'' ''s'' = Fin 5.13 \<and> cell me ''A'' ''i'' = Fin 15"
proof -
  define lr where "lr = transpose_frame (DataFrame
      [(''A'', [(''s'', Fin 6), (''i'', Fin 10)]), (''B'', [(''s'', Fin 4.13), (''i'', Fin 20)])])"
  define me where "me = transpose_frame (DataFrame
      [(''A'', [(''s'', Fin 5.13), (''i'', Fin 15)]), (''B'', [(''s'', Fin 5.13), (''i'', Fin 15)])])"
  have lr: "get_linear_regression_parameters closed_form_polyfit exact_arith example_table = Inr lr"
    by (simp only: get_linear_regression_parameters_def example_lr_dict bind_e_def sum.case
        lr_def)
  have me: "get_mixed_effects_regression_parameters example_mixedlm exact_arith example_table =
      Inr me"
    by (simp only: get_mixed_effects_regression_parameters_def example_me_dict bind_e_def
        sum.case me_def)
  have pB: "''B'' \<in> poke ` set example_table" and pA: "''A'' \<in> poke ` set example_table"
    by (simp_all add: example_poke_set)
  note rounded = fitted_values_are_rounded
    [of closed_form_polyfit exact_arith example_table lr example_mixedlm me]
  have "\<forall>p \<in> poke ` set example_table. \<exists>slope intercept.
         fit_poke closed_form_polyfit example_table p = Some (slope, intercept) \<and>
         cell lr p ''s'' = py_round exact_arith slope 2 \<and>
         cell lr p ''i'' = py_round exact_arith intercept 2"
    by (rule rounded [THEN conjunct1, THEN mp, OF lr, THEN conjunct2])
  with pB obtain slope intercept where
    f: "fit_poke closed_form_polyfit example_table ''B'' = Some (slope, intercept)"
    and s: "cell lr ''B'' ''s'' = py_round exact_arith slope 2"
    and i: "cell lr ''B'' ''i'' = py_round exact_arith intercept 2"
    by blast
  from f have "Some (slope, intercept) = Some (Fin 4.126, Fin 20.004)"
    by (simp only: example_fit_B)
  then have si: "slope = Fin 4.126" "intercept = Fin 20.004"
    by (simp_all only: option.inject prod.inject)
  have cB: "cell lr ''B'' ''s'' = Fin 4.13" "cell lr ''B'' ''i'' = Fin 20"
    using s i by (simp_all only: si example_rounding)
  have "\<exists>mdf. example_mixedlm example_table = Some mdf \<and>
      (\<forall>p \<in> poke ` set example_table. \<exists>re_Group re_slope.
         random_effects mdf p = Some (re_Group, re_slope) \<and>
         cell me p ''s'' =
           py_round exact_arith (float_add exact_arith (fe_single_release_vol mdf) re_slope) 2 \<and>
         cell me p ''i'' =
           py_round exact_arith (float_add exact_arith (fe_Intercept mdf) re_Group) 2)"
    by (rule rounded [THEN conjunct2, THEN mp, OF me, THEN conjunct2])
  then obtain mdf where mdf: "example_mixedlm example_table = Some mdf"
    and cells: "\<forall>p \<in> poke ` set example_table. \<exists>re_Group re_slope.
        random_effects mdf p = Some (re_Group, re_slope) \<and>
        cell me p ''s'' =
          py_round exact_arith (float_add exact_arith (fe_single_release_vol mdf) re_slope) 2 \<and>
        cell me p ''i'' =
          py_round exact_arith (float_add exact_arith (fe_Intercept mdf) re_Group) 2"
    by blast
  from cells pA obtain re_Group re_slope where
    r: "random_effects mdf ''A'' = Some (re_Group, re_slope)"
    and ms: "cell me ''A'' ''s'' =
      py_round exact_arith (float_add exact_arith (fe_single_release_vol mdf) re_slope) 2"
    and mi: "cell me ''A'' ''i'' =
      py_round exact_arith (float_add exact_arith (fe_Intercept mdf) re_Group) 2"
    by blast
  have fe: "fe_single_release_vol mdf = Fin 5" "fe_Intercept mdf = Fin 15"
    using mdf by (auto simp: example_mixedlm_def)
  have "random_effects mdf ''A'' = Some (Fin 0.004, Fin 0.126)"
    using example_random_effects [of "''A''"] mdf by simp
  with r have "Some (re_Group, re_slope) = Some (Fin 0.004, Fin 0.126)" by (simp only:)
  then have re: "re_Group = Fin 0.004" "re_slope = Fin 0.126"
    by (simp_all only: option.inject prod.inject)
  have cA: "cell me ''A'' ''s'' = Fin 5.13" "cell me ''A'' ''i'' = Fin 15"
    using ms mi by (simp_all only: fe re example_rounding)
  show ?thesis
    by (rule exI [of _ lr], rule exI [of _ me])
      (intro conjI lr pB example_fit_B cB me cA)
qed

section \<open>Facts about the entry point\<close>

lemma run_success:
  assumes "get_poke_calibration_parameters L fs data_filename plot save_mixed_effects
      save_filename = (Inr r, fs')"
  shows "\<exists>df lr me.
      load_autocalibration_results (to_datetime L) (literal_eval L) (arith L) fs data_filename =
        Inr df \<and>
      get_linear_regression_parameters (np_polyfit L) (arith L) df = Inr lr \<and>
      get_mixed_effects_regression_parameters (mixedlm_fit L) (arith L) df = Inr me \<and>
      r = (lr, me) \<and>
      fs' = fs\<lparr>files := (files fs)(os_path_join AUTOCALIBRATION_RESULTS_PATH save_filename \<mapsto>
              py_repr L (to_dict (transpose_frame (if save_mixed_effects then me else lr))))\<rparr>"
  using assms
  by (auto simp: get_poke_calibration_parameters_def Let_def split: sum.splits if_splits)


lemma run_load_error:
  "load_autocalibration_results (to_datetime L) (literal_eval L) (arith L) fs data_filename =
     Inl e \<Longrightarrow>
   get_poke_calibration_parameters L fs data_filename plot save_mixed_effects save_filename =
     (Inl e, fs)"
  by (simp add: get_poke_calibration_parameters_def)


lemma run_mixed_effects_error:
  "load_autocalibration_results (to_datetime L) (literal_eval L) (arith L) fs data_filename =
     Inr df \<Longrightarrow>
   get_linear_regression_parameters (np_polyfit L) (arith L) df = Inr lr \<Longrightarrow>
   get_mixed_effects_regression_parameters (mixedlm_fit L) (arith L) df = Inl e \<Longrightarrow>
   get_poke_calibration_parameters L fs data_filename plot save_mixed_effects save_filename =
     (Inl e, fs)"
  by (simp add: get_poke_calibration_parameters_def)

lemma run_after_fits:
  "load_autocalibration_results (to_datetime L) (literal_eval L) (arith L) fs data_filename =
     Inr df \<Longrightarrow>
   get_linear_regression_parameters (np_polyfit L) (arith L) df = Inr lr \<Longrightarrow>
   get_mixed_effects_regression_parameters (mixedlm_fit L) (arith L) df = Inr me \<Longrightarrow>
   get_poke_calibration_parameters L fs data_filename plot save_mixed_effects save_filename =
     (if plot \<and> \<not> show_plots L df me then (Inl PlotError, fs)
      else if \<not> can_open fs (os_path_join AUTOCALIBRATION_RESULTS_PATH save_filename)
      then (Inl (OSError (os_path_join AUTOCALIBRATION_RESULTS_PATH save_filename)), fs)
      else (Inr (lr, me),
            fs\<lparr>files := (files fs)(os_path_join AUTOCALIBRATION_RESULTS_PATH save_filename \<mapsto>
              py_repr L (to_dict (transpose_frame (if save_mixed_effects then me else lr))))\<rparr>))"
  by (simp add: get_poke_calibration_parameters_def Let_def)

lemma mixedlm_raises:
  "mixedlm_fit L df = None \<Longrightarrow>
   get_mixed_effects_regression_parameters (mixedlm_fit L) (arith L) df = Inl MixedLMError"
  by (simp add: get_mixed_effects_regression_parameters_def mixed_effects_poke2fit_def bind_e_def)

text \<open>The dictionary of a frame a fitter returned, read off the cells of the frame.\<close>

lemma written_dict:
  fixes entry :: "'p \<Rightarrow> f64 \<times> f64" and ps :: "'p list" and A :: float64_arith
  defines "d \<equiv> map (\<lambda>p. (p, fit_entry A (fst (entry p)) (snd (entry p)))) ps"
  shows "to_dict (transpose_frame (transpose_frame (DataFrame d))) =
           map (\<lambda>p. (p, [(''s'', cell (transpose_frame (DataFrame d)) p ''s''),
                          (''i'', cell (transpose_frame (DataFrame d)) p ''i'')])) ps"
proof -
  have "to_dict (transpose_frame (transpose_frame (DataFrame d))) = d"
    unfolding d_def by (rule to_dict_of_fits)
  also have "d = map (\<lambda>p. (p, [(''s'', py_round A (fst (entry p)) 2),
                                (''i'', py_round A (snd (entry p)) 2)])) ps"
    by (simp add: d_def fit_entry_def)
  also have "\<dots> = map (\<lambda>p. (p, [(''s'', cell (transpose_frame (DataFrame d)) p ''s''),
                                  (''i'', cell (transpose_frame (DataFrame d)) p ''i'')])) ps"
    unfolding d_def by (rule map_cong) (simp_all add: frame_of_fits(3,4))
  finally show ?thesis .
qed

lemma linear_regression_written:
  assumes "get_linear_regression_parameters pf A df = Inr lr"
  shows "to_dict (transpose_frame lr) =
           map (\<lambda>p. (p, [(''s'', cell lr p ''s''), (''i'', cell lr p ''i'')]))
             (unique (map poke df))"
proof -
  let ?entry = "\<lambda>p. the (fit_poke pf df p)"
  from linear_regression_frame [OF assms]
  have lr: "lr = transpose_frame (DataFrame
        (map (\<lambda>p. (p, fit_entry A (fst (?entry p)) (snd (?entry p)))) (unique (map poke df))))"
    by simp
  show ?thesis unfolding lr by (rule written_dict)
qed

lemma mixed_effects_written:
  assumes "get_mixed_effects_regression_parameters fit A df = Inr me"
  shows "to_dict (transpose_frame me) =
           map (\<lambda>p. (p, [(''s'', cell me p ''s''), (''i'', cell me p ''i'')]))
             (unique (map poke df))"
proof -
  from mixed_effects_frame [OF assms] obtain mdf where
    mdf: "fit df = Some mdf" and
    me0: "me = transpose_frame (DataFrame
                (map (\<lambda>p. (p, fit_entry A
                  (float_add A (fe_single_release_vol mdf) (snd (the (random_effects mdf p))))
                  (float_add A (fe_Intercept mdf) (fst (the (random_effects mdf p))))))
                  (unique (map poke df))))"
    by blast
  let ?entry = "\<lambda>p. (float_add A (fe_single_release_vol mdf) (snd (the (random_effects mdf p))),
                      float_add A (fe_Intercept mdf) (fst (the (random_effects mdf p))))"
  have me: "me = transpose_frame (DataFrame
      (map (\<lambda>p. (p, fit_entry A (fst (?entry p)) (snd (?entry p)))) (unique (map poke df))))"
    using me0 by simp
  show ?thesis unfolding me by (rule written_dict)
qed

section \<open>Facts about the example run\<close>

lemma example_lr_frame:
  "get_linear_regression_parameters closed_form_polyfit exact_arith example_table =
     Inr example_lr_params"
  by (simp only: get_linear_regression_parameters_def example_lr_dict bind_e_def sum.case
      example_lr_params_def)

lemma example_me_frame:
  "get_mixed_effects_regression_parameters example_mixedlm exact_arith example_table =
     Inr example_me_params"
  by (simp only: get_mixed_effects_regression_parameters_def example_me_dict bind_e_def
      sum.case example_me_params_def)

lemma example_libraries_fields:
  "to_datetime (example_libraries fit) = digit_stamp"
  "literal_eval (example_libraries fit) = map_of example_literals"
  "arith (example_libraries fit) = exact_arith"
  "np_polyfit (example_libraries fit) = closed_form_polyfit"
  "mixedlm_fit (example_libraries fit) = fit"
  "show_plots (example_libraries fit) df me = True"
  "py_repr (example_libraries fit) = example_repr"
  by (simp_all add: example_libraries_def)

lemma example_save_path:
  "os_path_join AUTOCALIBRATION_RESULTS_PATH ''calibration_results.txt'' =
     ''autocalibration_results/calibration_results.txt''"
  by (simp add: os_path_join_def AUTOCALIBRATION_RESULTS_PATH_def)

lemma example_can_open: "can_open example_fs path"
  by (simp add: example_fs_def)

lemma example_run:
  "get_poke_calibration_parameters (example_libraries example_mixedlm) example_fs None plot
     save_mixed_effects ''calibration_results.txt'' =
     (Inr (example_lr_params, example_me_params),
      example_fs\<lparr>files := (files example_fs)(''autocalibration_results/calibration_results.txt'' \<mapsto>
         example_repr (to_dict (transpose_frame
           (if save_mixed_effects then example_me_params else example_lr_params))))\<rparr>)"
proof -
  let ?L = "example_libraries example_mixedlm"
  have l: "load_autocalibration_results (to_datetime ?L) (literal_eval ?L) (arith ?L) example_fs
      None = Inr example_table"
    by (simp only: example_libraries_fields example_load)
  have lr: "get_linear_regression_parameters (np_polyfit ?L) (arith ?L) example_table =
      Inr example_lr_params"
    by (simp only: example_libraries_fields example_lr_frame)
  have me: "get_mixed_effects_regression_parameters (mixedlm_fit ?L) (arith ?L) example_table =
      Inr example_me_params"
    by (simp only: example_libraries_fields example_me_frame)
  show ?thesis
    unfolding run_after_fits [OF l lr me]
    by (simp only: example_libraries_fields example_save_path example_can_open simp_thms if_False)
qed

lemma example_failing_run:
  "get_poke_calibration_parameters (example_libraries failing_mixedlm) example_fs None plot
     save_mixed_effects save_filename = (Inl MixedLMError, example_fs)"
proof -
  let ?L = "example_libraries failing_mixedlm"
  have l: "load_autocalibration_results (to_datetime ?L) (literal_eval ?L) (arith ?L) example_fs
      None = Inr example_table"
    by (simp only: example_libraries_fields example_load)
  have lr: "get_linear_regression_parameters (np_polyfit ?L) (arith ?L) example_table =
      Inr example_lr_params"
    by (simp only: example_libraries_fields example_lr_frame)
  have "mixedlm_fit ?L example_table = None"
    by (simp add: example_libraries_fields failing_mixedlm_def)
  then have me: "get_mixed_effects_regression_parameters (mixedlm_fit ?L) (arith ?L)
      example_table = Inl MixedLMError"
    by (rule mixedlm_raises)
  show ?thesis by (rule run_mixed_effects_error [OF l lr me])
qed

lemma example_written:
  "to_dict (transpose_frame example_lr_params) =
     [(''A'', [(''s'', Fin 6), (''i'', Fin 10)]), (''B'', [(''s'', Fin 4.13), (''i'', Fin 20)])]"
  "to_dict (transpose_frame example_me_params) =
     [(''A'', [(''s'', Fin 5.13), (''i'', Fin 15)]), (''B'', [(''s'', Fin 5.13), (''i'', Fin 15)])]"
  by (simp_all add: to_dict_def transpose_frame_def DataFrame_def unique_def
      example_lr_params_def example_me_params_def)

lemma example_texts:
  "example_repr
     [(''A'', [(''s'', Fin 6), (''i'', Fin 10)]), (''B'', [(''s'', Fin 4.13), (''i'', Fin 20)])] =
   ''{'A': {'s': 6.0, 'i': 10.0}, 'B': {'s': 4.13, 'i': 20.0}}''"
  "example_repr
     [(''A'', [(''s'', Fin 5.13), (''i'', Fin 15)]), (''B'', [(''s'', Fin 5.13), (''i'', Fin 15)])] =
   ''{'A': {'s': 5.13, 'i': 15.0}, 'B': {'s': 5.13, 'i': 15.0}}''"
  by (simp_all add: example_repr_def quoted_def example_float_repr_def)

lemma example_cells:
  "cell example_lr_params ''A'' ''s'' = Fin 6" "cell example_lr_params ''A'' ''i'' = Fin 10"
  "cell example_lr_params ''B'' ''s'' = Fin 4.13" "cell example_lr_params ''B'' ''i'' = Fin 20"
  "cell example_me_params ''A'' ''s'' = Fin 5.13" "cell example_me_params ''A'' ''i'' = Fin 15"
  "cell example_me_params ''B'' ''s'' = Fin 5.13" "cell example_me_params ''B'' ''i'' = Fin 15"
  by (simp_all add: transpose_frame_def DataFrame_def example_lr_params_def
      example_me_params_def)

section \<open>Both fit collections are returned\<close>

text \<open>
  Claim C8. A call of the entry point that returns has loaded the table and fitted it both
  ways, and returns the pair of the frame of the independent regression fits and the frame
  of the mixed effects fits. The pair is the same for every value of the plot flag, of the
  flag that chooses what is saved, and of the name of the file to save to, with which the
  call returns.
\<close>

theorem both_fit_collections_returned:
  assumes "get_poke_calibration_parameters L fs data_filename plot save_mixed_effects
      save_filename = (Inr r, fs')"
  shows "\<exists>df lr me.
      load_autocalibration_results (to_datetime L) (literal_eval L) (arith L) fs data_filename =
        Inr df \<and>
      get_linear_regression_parameters (np_polyfit L) (arith L) df = Inr lr \<and>
      get_mixed_effects_regression_parameters (mixedlm_fit L) (arith L) df = Inr me \<and>
      r = (lr, me) \<and>
      (\<forall>plot' save_mixed_effects' save_filename' r' fs''.
         get_poke_calibration_parameters L fs data_filename plot' save_mixed_effects'
           save_filename' = (Inr r', fs'') \<longrightarrow> r' = (lr, me))"
proof -
  from run_success [OF assms] obtain df lr me where
    l: "load_autocalibration_results (to_datetime L) (literal_eval L) (arith L) fs data_filename =
        Inr df"
    and lr: "get_linear_regression_parameters (np_polyfit L) (arith L) df = Inr lr"
    and me: "get_mixed_effects_regression_parameters (mixedlm_fit L) (arith L) df = Inr me"
    and r: "r = (lr, me)"
    by blast
  have "r' = (lr, me)"
    if "get_poke_calibration_parameters L fs data_filename plot' save_mixed_effects'
           save_filename' = (Inr r', fs'')"
    for plot' save_mixed_effects' save_filename' r' fs''
    using run_success [OF that] l lr me by auto
  with l lr me r show ?thesis by blast
qed

theorem both_fit_collections_returned_witness:
  "get_poke_calibration_parameters (example_libraries example_mixedlm) example_fs None True True
     ''calibration_results.txt'' =
     (Inr (example_lr_params, example_me_params),
      example_fs\<lparr>files := (files example_fs)(''autocalibration_results/calibration_results.txt'' \<mapsto>
         ''{'A': {'s': 5.13, 'i': 15.0}, 'B': {'s': 5.13, 'i': 15.0}}'')\<rparr>) \<and>
   fst (get_poke_calibration_parameters (example_libraries example_mixedlm) example_fs None False
     False ''calibration_results.txt'') = Inr (example_lr_params, example_me_params) \<and>
   cell example_lr_params ''B'' ''s'' = Fin 4.13 \<and> cell example_me_params ''B'' ''s'' = Fin 5.13"
proof -
  let ?L = "example_libraries example_mixedlm"
  let ?fs = "example_fs\<lparr>files := (files example_fs)
      (''autocalibration_results/calibration_results.txt'' \<mapsto>
         ''{'A': {'s': 5.13, 'i': 15.0}, 'B': {'s': 5.13, 'i': 15.0}}'')\<rparr>"
  have a: "get_poke_calibration_parameters ?L example_fs None True True
      ''calibration_results.txt'' = (Inr (example_lr_params, example_me_params), ?fs)"
    by (simp only: example_run if_True example_written example_texts)
  from both_fit_collections_returned [OF a] obtain lr me where
    r: "(example_lr_params, example_me_params) = (lr, me)"
    and all: "\<forall>plot' save_mixed_effects' save_filename' r' fs''.
         get_poke_calibration_parameters ?L example_fs None plot' save_mixed_effects'
           save_filename' = (Inr r', fs'') \<longrightarrow> r' = (lr, me)"
    by blast
  obtain r' fs'' where b: "get_poke_calibration_parameters ?L example_fs None False False
      ''calibration_results.txt'' = (Inr r', fs'')"
    by (simp only: example_run)
  with all have "r' = (lr, me)" by blast
  with r b have "fst (get_poke_calibration_parameters ?L example_fs None False False
      ''calibration_results.txt'') = Inr (example_lr_params, example_me_params)"
    by simp
  with a example_cells(3,7) show ?thesis by (intro conjI)
qed

section \<open>A failure of the mixed effects fit leaves no file\<close>



section \<open>The file that is written\<close>

text \<open>
  Claim C4. A call of the entry point that returns has written one file, at the path that
  joins the results directory and the given file name (below the results directory unless
  the name starts with a slash), and left every other file as it was. The file holds the
  \<^verbatim>\<open>repr\<close> of a dictionary with one key for each poke of the table, in order of first
  appearance, whose value is the dictionary of the key \<^verbatim>\<open>s\<close> with the slope and the key
  \<^verbatim>\<open>i\<close> with the intercept of that poke, both taken from the returned frame of the mixed
  effects fits when \<^verbatim>\<open>save_mixed_effects\<close> is true and from the returned frame of the
  independent regression fits when it is false.
\<close>

theorem chosen_fits_are_written:
  assumes "get_poke_calibration_parameters L fs data_filename plot save_mixed_effects
      save_filename = (Inr (lr, me), fs')"
  shows "\<exists>df.
      load_autocalibration_results (to_datetime L) (literal_eval L) (arith L) fs data_filename =
        Inr df \<and>
      get_linear_regression_parameters (np_polyfit L) (arith L) df = Inr lr \<and>
      get_mixed_effects_regression_parameters (mixedlm_fit L) (arith L) df = Inr me \<and>
      files fs' (os_path_join AUTOCALIBRATION_RESULTS_PATH save_filename) =
        Some (py_repr L
          (map (\<lambda>p. (p, [(''s'', cell (if save_mixed_effects then me else lr) p ''s''),
                         (''i'', cell (if save_mixed_effects then me else lr) p ''i'')]))
             (unique (map poke df)))) \<and>
      (\<forall>path. path \<noteq> os_path_join AUTOCALIBRATION_RESULTS_PATH save_filename \<longrightarrow>
         files fs' path = files fs path) \<and>
      (\<not> (save_filename \<noteq> [] \<and> hd save_filename = CHR ''/'') \<longrightarrow>
         os_path_join AUTOCALIBRATION_RESULTS_PATH save_filename =
           AUTOCALIBRATION_RESULTS_PATH @ ''/'' @ save_filename)"
proof -
  let ?path = "os_path_join AUTOCALIBRATION_RESULTS_PATH save_filename"
  from run_success [OF assms] obtain df where
    l: "load_autocalibration_results (to_datetime L) (literal_eval L) (arith L) fs data_filename =
        Inr df"
    and lr: "get_linear_regression_parameters (np_polyfit L) (arith L) df = Inr lr"
    and me: "get_mixed_effects_regression_parameters (mixedlm_fit L) (arith L) df = Inr me"
    and fs': "fs' = fs\<lparr>files := (files fs)(?path \<mapsto>
              py_repr L (to_dict (transpose_frame (if save_mixed_effects then me else lr))))\<rparr>"
    by auto
  have d: "to_dict (transpose_frame (if save_mixed_effects then me else lr)) =
      map (\<lambda>p. (p, [(''s'', cell (if save_mixed_effects then me else lr) p ''s''),
                     (''i'', cell (if save_mixed_effects then me else lr) p ''i'')]))
        (unique (map poke df))"
    using linear_regression_written [OF lr] mixed_effects_written [OF me] by simp
  have w: "files fs' ?path = Some (py_repr L
          (map (\<lambda>p. (p, [(''s'', cell (if save_mixed_effects then me else lr) p ''s''),
                         (''i'', cell (if save_mixed_effects then me else lr) p ''i'')]))
             (unique (map poke df))))"
    unfolding fs' by (simp only: d) simp
  have o: "\<forall>path. path \<noteq> ?path \<longrightarrow> files fs' path = files fs path"
    unfolding fs' by simp
  have j: "\<not> (save_filename \<noteq> [] \<and> hd save_filename = CHR ''/'') \<longrightarrow>
      ?path = AUTOCALIBRATION_RESULTS_PATH @ ''/'' @ save_filename"
    by (simp add: os_path_join_def AUTOCALIBRATION_RESULTS_PATH_def)
  from l lr me w o j show ?thesis by blast
qed

theorem chosen_fits_are_written_witness:
  "files (snd (get_poke_calibration_parameters (example_libraries example_mixedlm) example_fs
       None True True ''calibration_results.txt''))
     ''autocalibration_results/calibration_results.txt'' =
     Some ''{'A': {'s': 5.13, 'i': 15.0}, 'B': {'s': 5.13, 'i': 15.0}}'' \<and>
   files (snd (get_poke_calibration_parameters (example_libraries example_mixedlm) example_fs
       None True False ''calibration_results.txt''))
     ''autocalibration_results/calibration_results.txt'' =
     Some ''{'A': {'s': 6.0, 'i': 10.0}, 'B': {'s': 4.13, 'i': 20.0}}''"
proof -
  let ?L = "example_libraries example_mixedlm"
  let ?d = "\<lambda>F. map (\<lambda>p. (p, [(''s'', cell F p ''s''), (''i'', cell F p ''i'')]))"
  have texts:
    "example_repr (?d example_me_params [''A'', ''B'']) =
       ''{'A': {'s': 5.13, 'i': 15.0}, 'B': {'s': 5.13, 'i': 15.0}}''"
    "example_repr (?d example_lr_params [''A'', ''B'']) =
       ''{'A': {'s': 6.0, 'i': 10.0}, 'B': {'s': 4.13, 'i': 20.0}}''"
    by (simp_all only: list.map example_cells example_texts)
  have written: "files (snd (get_poke_calibration_parameters ?L example_fs None True sme
        ''calibration_results.txt'')) ''autocalibration_results/calibration_results.txt'' =
      Some (example_repr (?d (if sme then example_me_params else example_lr_params)
        [''A'', ''B'']))" for sme
  proof -
    obtain fs' where run: "get_poke_calibration_parameters ?L example_fs None True sme
        ''calibration_results.txt'' = (Inr (example_lr_params, example_me_params), fs')"
      by (simp only: example_run)
    from chosen_fits_are_written [OF run] obtain df where
      l: "load_autocalibration_results (to_datetime ?L) (literal_eval ?L) (arith ?L) example_fs
        None = Inr df"
      and w: "files fs' (os_path_join AUTOCALIBRATION_RESULTS_PATH ''calibration_results.txt'') =
        Some (py_repr ?L (?d (if sme then example_me_params else example_lr_params)
          (unique (map poke df))))"
      by blast
    from l have "df = example_table"
      by (simp only: example_libraries_fields example_load sum.inject)
    with w have "files fs' ''autocalibration_results/calibration_results.txt'' =
        Some (example_repr (?d (if sme then example_me_params else example_lr_params)
          [''A'', ''B'']))"
      by (simp only: example_save_path example_libraries_fields example_pokes)
    with run show ?thesis by (simp only: snd_conv)
  qed
  from written [of True] written [of False] texts show ?thesis
    by (simp only: if_True if_False simp_thms)
qed

section \<open>Noise-free data give back the line\<close>





section \<open>Facts about exact rounding\<close>



section \<open>The independent fits of noise-free data\<close>



end
